theory Spec2Isabelle
  imports Complex_Main "HOL-Library.Word" "HOL-Library.Sublist"
begin

section \<open>The UASTC to RGBA (unorm) transcoder variant\<close>

subsection \<open>The enumerations of the decoder types\<close>

text \<open>
  Modelled from the spec: the numeric enums \<open>KTX2.SourceTextureFormat\<close> and
  \<open>KTX2.TranscodeTarget\<close> are declared in \<open>core/Materials/Textures/ktx2decoderTypes\<close>,
  which is not among the sources. The variant names one member of each
  (\<open>UASTC4x4\<close> and \<open>RGBA32\<close>); every other member is carried by its numeric tag.
  The source compares members with \<open>===\<close>, which on enum members is equality.
\<close>

datatype SourceTextureFormat = UASTC4x4 | OtherSourceTextureFormat nat

datatype TranscodeTarget = RGBA32 | OtherTranscodeTarget nat

subsection \<open>The capability check\<close>

text \<open>
  \<^verbatim>\<open>
  public static override CanTranscode(src, dst, isInGammaSpace): boolean {
      return src === KTX2.SourceTextureFormat.UASTC4x4
          && dst === KTX2.TranscodeTarget.RGBA32 && !isInGammaSpace;
  }
  \<close>
\<close>

definition CanTranscode :: "SourceTextureFormat \<Rightarrow> TranscodeTarget \<Rightarrow> bool \<Rightarrow> bool" where
  "CanTranscode src dst isInGammaSpace \<longleftrightarrow>
     src = UASTC4x4 \<and> dst = RGBA32 \<and> \<not> isInGammaSpace"

subsection \<open>Errors and promises\<close>

text \<open>
  A promise is modelled by what it settles to: \<open>Inl e\<close> is a rejection with reason \<open>e\<close>,
  \<open>Inr v\<close> a fulfilment with value \<open>v\<close>. A thrown exception is an \<open>Inl\<close> too.
\<close>

datatype error = ModuleLoadFailed string | TypeError | Thrown string

subsection \<open>Bytes, array buffers and views\<close>

text \<open>
  An \<open>ArrayBuffer\<close> has an identity. The linear memory of the decode module shows as an
  array buffer; when the memory grows, that buffer is detached for good and a new one
  stands for the memory: \<open>WasmMemory g\<close> is the \<open>g\<close>-th of them. Every buffer allocated
  by \<open>slice\<close> is another. A \<open>Uint8Array\<close> is a view (buffer, offset, length) and shares
  the bytes of its buffer with every other view of it.
\<close>

type_synonym byte = "8 word"

datatype ArrayBuffer = WasmMemory nat | Allocated nat

record Uint8Array =
  buffer :: ArrayBuffer
  byteOffset :: nat
  byteLength :: nat

text \<open>
  The world a call runs in: the fields of the transcoder object (\<open>this\<close>), the contents
  of the module's linear memory, which of its buffers is the live one, and the buffers
  allocated so far.
\<close>

record 't world =
  variant :: 't
  wasmMemory :: "byte list"
  memoryBuffer :: nat
  allocated :: "byte list list"

text \<open>The bytes of a buffer; a detached buffer and a buffer never allocated have none.\<close>

definition contents :: "'t world \<Rightarrow> ArrayBuffer \<Rightarrow> byte list option" where
  "contents w buf =
     (case buf of
        WasmMemory g \<Rightarrow> (if g = memoryBuffer w then Some (wasmMemory w) else None)
      | Allocated k \<Rightarrow> (if k < length (allocated w) then Some (allocated w ! k) else None))"

definition bytes_of :: "'t world \<Rightarrow> Uint8Array \<Rightarrow> byte list" where
  "bytes_of w view =
     (case contents w (buffer view) of
        None \<Rightarrow> []
      | Some bs \<Rightarrow> take (byteLength view) (drop (byteOffset view) bs))"

text \<open>A view can be used while its buffer is attached and holds the whole of its range.\<close>

definition usable :: "'t world \<Rightarrow> Uint8Array \<Rightarrow> bool" where
  "usable w view =
     (case contents w (buffer view) of
        None \<Rightarrow> False
      | Some bs \<Rightarrow> byteOffset view + byteLength view \<le> length bs)"

text \<open>
  The memory as wasm code, or a growth of the memory, leaves it. A memory never shrinks:
  a change of its length is a growth, and a growth detaches the buffer that stood for it.
\<close>

definition store_memory :: "byte list \<Rightarrow> 't world \<Rightarrow> 't world" where
  "store_memory mem w =
     w\<lparr> wasmMemory := mem,
        memoryBuffer :=
          (if length mem = length (wasmMemory w) then memoryBuffer w
           else Suc (memoryBuffer w)) \<rparr>"

text \<open>
  \<open>view.slice()\<close> with no arguments: a new typed array on a new buffer of its own, holding
  a copy of the bytes the view shows at that moment. On a view whose buffer is detached,
  or that is out of bounds, it throws a \<open>TypeError\<close>.
\<close>

definition slice :: "Uint8Array \<Rightarrow> 't world \<Rightarrow> (error + Uint8Array) \<times> 't world" where
  "slice view w =
     (if usable w view then
        (Inr \<lparr> buffer = Allocated (length (allocated w)), byteOffset = 0,
               byteLength = byteLength view \<rparr>,
         w\<lparr> allocated := allocated w @ [bytes_of w view] \<rparr>)
      else (Inl TypeError, w))"

text \<open>
  A later write of one byte through a buffer, as any holder of a view of it can do. Nothing
  can be written through a detached buffer.
\<close>

definition write_byte :: "ArrayBuffer \<Rightarrow> nat \<Rightarrow> byte \<Rightarrow> 't world \<Rightarrow> 't world" where
  "write_byte buf i x w =
     (case buf of
        WasmMemory g \<Rightarrow>
          (if g = memoryBuffer w then w\<lparr> wasmMemory := (wasmMemory w)[i := x] \<rparr> else w)
      | Allocated k \<Rightarrow>
          (if k < length (allocated w)
           then w\<lparr> allocated := (allocated w)[k := (allocated w ! k)[i := x]] \<rparr>
           else w))"

subsection \<open>The decode module\<close>

text \<open>
  The exports of the instantiated decode module. The binary is fetched at run time and is
  no part of the repository: \<open>decode(width, height)\<close> is a parameter, a function of its
  arguments and of the linear memory it runs on, which gives a status (or traps) and the
  memory it leaves.
\<close>

record exports =
  decode :: "nat \<Rightarrow> nat \<Rightarrow> byte list \<Rightarrow> (error + int) \<times> byte list"

record moduleWrapper =
  module :: exports

subsection \<open>The transcode operation\<close>

text \<open>
  The calls a \<open>transcode\<close> makes to its collaborators. Each call is made through a
  function that runs the collaborator and names the call with the arguments it was given,
  so that the list of calls a \<open>transcode\<close> returns is the list of the calls it made, in
  the order it made them. The list is bookkeeping and no part of the program state.
\<close>

datatype call =
    Call_loadModule
  | Call_prepareTranscoding nat nat nat "byte list" nat
  | Call_decode nat nat
  | Call_slice Uint8Array

definition invoke_loadModule ::
  "('t world \<Rightarrow> (error + moduleWrapper) \<times> 't world) \<Rightarrow> 't world
     \<Rightarrow> call \<times> (error + moduleWrapper) \<times> 't world" where
  "invoke_loadModule loadModule w = (Call_loadModule, loadModule w)"

definition invoke_prepareTranscoding ::
  "(nat \<Rightarrow> nat \<Rightarrow> nat \<Rightarrow> byte list \<Rightarrow> nat \<Rightarrow> 't world
      \<Rightarrow> (error + Uint8Array \<times> Uint8Array option) \<times> 't world) \<Rightarrow>
   nat \<Rightarrow> nat \<Rightarrow> nat \<Rightarrow> byte list \<Rightarrow> nat \<Rightarrow> 't world
     \<Rightarrow> call \<times> (error + Uint8Array \<times> Uint8Array option) \<times> 't world" where
  "invoke_prepareTranscoding prepareTranscoding width height uncompressedByteLength encodedData
       bytesPerPixel w =
     (Call_prepareTranscoding width height uncompressedByteLength encodedData bytesPerPixel,
      prepareTranscoding width height uncompressedByteLength encodedData bytesPerPixel w)"

text \<open>\<open>decode\<close> runs on the memory of the world and leaves the memory it returns.\<close>

definition invoke_decode ::
  "exports \<Rightarrow> nat \<Rightarrow> nat \<Rightarrow> 't world \<Rightarrow> call \<times> (error + int) \<times> 't world" where
  "invoke_decode transcoder width height w =
     (case decode transcoder width height (wasmMemory w) of
        (result, mem) \<Rightarrow> (Call_decode width height, result, store_memory mem w))"

definition invoke_slice ::
  "Uint8Array \<Rightarrow> 't world \<Rightarrow> call \<times> (error + Uint8Array) \<times> 't world" where
  "invoke_slice view w = (Call_slice view, slice view w)"

text \<open>
  \<^verbatim>\<open>
  public override transcode(src, dst, level, width, height, uncompressedByteLength,
                            ktx2Reader, imageDesc, encodedData): Promise<Uint8Array | null> {
      return this._loadModule().then((moduleWrapper: any) => {
          const transcoder: any = moduleWrapper.module;
          const [, uncompressedTextureView] =
              this._prepareTranscoding(width, height, uncompressedByteLength, encodedData, 4);
          return transcoder.decode(width, height) === 0 ? uncompressedTextureView!.slice() : null;
      });
  }
  \<close>
  \<open>_loadModule\<close> and \<open>_prepareTranscoding\<close> belong to the base class \<open>LiteTranscoder\<close>,
  which is not among the sources: here they are parameters. \<open>then\<close> runs its callback
  only on fulfilment and passes a rejection on; an exception in the callback rejects the
  resulting promise. The second component of what \<open>_prepareTranscoding\<close> returns may be
  \<open>null\<close>; the \<open>!\<close> is erased at run time, so \<open>slice\<close> on \<open>null\<close> throws a
  \<open>TypeError\<close>. \<open>encodedData\<close> is taken by its bytes.
\<close>

definition transcode ::
  "('t world \<Rightarrow> (error + moduleWrapper) \<times> 't world) \<Rightarrow>
   (nat \<Rightarrow> nat \<Rightarrow> nat \<Rightarrow> byte list \<Rightarrow> nat \<Rightarrow> 't world
      \<Rightarrow> (error + Uint8Array \<times> Uint8Array option) \<times> 't world) \<Rightarrow>
   SourceTextureFormat \<Rightarrow> TranscodeTarget \<Rightarrow> nat \<Rightarrow> nat \<Rightarrow> nat \<Rightarrow> nat \<Rightarrow> 'r \<Rightarrow> 'i option
     \<Rightarrow> byte list \<Rightarrow> 't world
     \<Rightarrow> (error + Uint8Array option) \<times> call list \<times> 't world" where
  "transcode loadModule prepareTranscoding
       src dst level width height uncompressedByteLength ktx2Reader imageDesc encodedData w =
     (case invoke_loadModule loadModule w of
        (c1, Inl e, w1) \<Rightarrow> (Inl e, [c1], w1)
      | (c1, Inr moduleWrapper, w1) \<Rightarrow>
          (let transcoder = module moduleWrapper
           in case invoke_prepareTranscoding prepareTranscoding width height
                     uncompressedByteLength encodedData 4 w1 of
                (c2, Inl e, w2) \<Rightarrow> (Inl e, [c1, c2], w2)
              | (c2, Inr (textureView, uncompressedTextureView), w2) \<Rightarrow>
                  (case invoke_decode transcoder width height w2 of
                     (c3, Inl e, w3) \<Rightarrow> (Inl e, [c1, c2, c3], w3)
                   | (c3, Inr status, w3) \<Rightarrow>
                       if status = 0 then
                         (case uncompressedTextureView of
                            None \<Rightarrow> (Inl TypeError, [c1, c2, c3], w3)
                          | Some view \<Rightarrow>
                              (case invoke_slice view w3 of
                                 (c4, Inl e, w4) \<Rightarrow> (Inl e, [c1, c2, c3, c4], w4)
                               | (c4, Inr copy, w4) \<Rightarrow>
                                   (Inr (Some copy), [c1, c2, c3, c4], w4)))
                       else (Inr None, [c1, c2, c3], w3))))"

subsection \<open>The base class: module lifecycle and working memory\<close>

text \<open>
  Modelled from the spec: the base class \<open>LiteTranscoder\<close> (\<open>./liteTranscoder\<close>) is not
  among the sources. Its fields and its methods \<open>setModulePath\<close>, \<open>_loadModule\<close> and
  \<open>_prepareTranscoding\<close> are written here from the specification: the module binding and
  its states (section 3 and 4.4), the module source configuration (section 6) and the
  working memory region (section 4.5, steps 3 and 4).

  A load takes the module from the pre-supplied binary when there is one, and from a
  remote fetch of the URL otherwise. The binding is unloaded, loading (one shared pending
  operation, with the callers attached to it), loaded (holding the module) or failed.
  The field \<open>loads\<close> is bookkeeping: every load started so far, oldest first.
\<close>

datatype load_source = FromBinary "byte list" | FromURL string

datatype ModuleBinding =
    Unloaded
  | Loading load_source "nat list"
  | Loaded moduleWrapper
  | Failed error

record LiteTranscoder =
  u_transcodeInPlace :: bool
  u_modulePath :: string
  u_wasmBinary :: "byte list option"
  u_moduleBinding :: ModuleBinding
  loads :: "load_source list"

text \<open>
  Modelled from the spec: the outside of a load, that is what a remote fetch of a URL
  gives and what instantiating a binary gives. Both may fail.
\<close>

record environment =
  fetch :: "string \<Rightarrow> error + byte list"
  instantiate :: "byte list \<Rightarrow> error + moduleWrapper"

definition perform_load :: "environment \<Rightarrow> load_source \<Rightarrow> error + moduleWrapper" where
  "perform_load env source =
     (case source of
        FromBinary binary \<Rightarrow> instantiate env binary
      | FromURL url \<Rightarrow>
          (case fetch env url of
             Inl e \<Rightarrow> Inl e
           | Inr binary \<Rightarrow> instantiate env binary))"

text \<open>
  Modelled from the spec, section 6: \<open>moduleURL\<close> is where to fetch the decode module if
  no binary is preset, \<open>moduleBinary\<close> the inline module bytes or \<open>null\<close>.
\<close>

definition setModulePath :: "string \<Rightarrow> byte list option \<Rightarrow> LiteTranscoder \<Rightarrow> LiteTranscoder" where
  "setModulePath modulePath wasmBinary this =
     this\<lparr> u_modulePath := modulePath, u_wasmBinary := wasmBinary \<rparr>"

definition module_source :: "LiteTranscoder \<Rightarrow> load_source" where
  "module_source this =
     (case u_wasmBinary this of
        Some binary \<Rightarrow> FromBinary binary
      | None \<Rightarrow> FromURL (u_modulePath this))"

text \<open>
  Modelled from the spec, section 4.4. \<open>ensureLoaded\<close> by one caller: from unloaded, and
  again from failed, it starts a load and is its first waiter; while loading it attaches
  the caller to the pending operation and starts nothing; once loaded it hands out the
  module held. The caller gets the module at once or is left waiting on the pending load.
\<close>

datatype awaited = Ready moduleWrapper | Pending load_source

definition start_load :: "nat \<Rightarrow> LiteTranscoder \<Rightarrow> awaited \<times> LiteTranscoder" where
  "start_load caller this =
     (Pending (module_source this),
      this\<lparr> u_moduleBinding := Loading (module_source this) [caller],
            loads := loads this @ [module_source this] \<rparr>)"

definition ensureLoaded :: "nat \<Rightarrow> LiteTranscoder \<Rightarrow> awaited \<times> LiteTranscoder" where
  "ensureLoaded caller this =
     (case u_moduleBinding this of
        Unloaded \<Rightarrow> start_load caller this
      | Failed e \<Rightarrow> start_load caller this
      | Loading source waiters \<Rightarrow>
          (Pending source, this\<lparr> u_moduleBinding := Loading source (waiters @ [caller]) \<rparr>)
      | Loaded moduleWrapper \<Rightarrow> (Ready moduleWrapper, this))"

text \<open>
  The pending load settles: every waiter attached to it receives the outcome, and the
  binding becomes loaded or failed. With no load pending nothing happens.
\<close>

definition settle ::
  "error + moduleWrapper \<Rightarrow> LiteTranscoder \<Rightarrow> (nat \<times> (error + moduleWrapper)) list \<times> LiteTranscoder" where
  "settle outcome this =
     (case u_moduleBinding this of
        Loading source waiters \<Rightarrow>
          (map (\<lambda>caller. (caller, outcome)) waiters,
           this\<lparr> u_moduleBinding := (case outcome of Inl e \<Rightarrow> Failed e | Inr m \<Rightarrow> Loaded m) \<rparr>)
      | _ \<Rightarrow> ([], this))"

text \<open>Several callers ask one after the other, before the load settles.\<close>

fun ensureLoaded_all :: "nat list \<Rightarrow> LiteTranscoder \<Rightarrow> awaited list \<times> LiteTranscoder" where
  "ensureLoaded_all [] this = ([], this)"
| "ensureLoaded_all (caller # callers) this =
     (case ensureLoaded caller this of
        (now, this1) \<Rightarrow>
          (case ensureLoaded_all callers this1 of
             (later, this2) \<Rightarrow> (now # later, this2)))"

text \<open>
  Modelled from the spec: \<open>_loadModule()\<close> as one \<open>transcode\<close> awaits it. The
  call asks for the module and, when it is left waiting, the pending load runs to its end
  in the environment.
\<close>

definition u_loadModule ::
  "environment \<Rightarrow> LiteTranscoder world \<Rightarrow> (error + moduleWrapper) \<times> LiteTranscoder world" where
  "u_loadModule env w =
     (case ensureLoaded 0 (variant w) of
        (Ready moduleWrapper, this) \<Rightarrow> (Inr moduleWrapper, w\<lparr> variant := this \<rparr>)
      | (Pending source, this) \<Rightarrow>
          (let outcome = perform_load env source
           in (outcome, w\<lparr> variant := snd (settle outcome this) \<rparr>)))"

text \<open>
  Modelled from the spec, section 4.5, steps 3 and 4, and testable property 6. The encoded
  bytes are copied to the start of the module's memory. A variant that transcodes in place
  has its result written over that region and gets no second view; a variant that does
  not gets a separate output region right behind the encoded bytes. The output region holds
  the uncompressed image in the layout the caller names by its fifth argument: width
  times height pixels of \<open>bytesPerPixel\<close> bytes each (property 6: a 4 by 4 image in
  RGBA32 gives 4 x 4 x 4 = 64 bytes). The specification gives the uncompressed byte length
  of the request no other role here. The memory is grown with zero bytes where it is too
  short to hold the regions, and the views are made on the memory's buffer after that.
\<close>

definition u_prepareTranscoding ::
  "nat \<Rightarrow> nat \<Rightarrow> nat \<Rightarrow> byte list \<Rightarrow> nat \<Rightarrow> LiteTranscoder world
     \<Rightarrow> (error + Uint8Array \<times> Uint8Array option) \<times> LiteTranscoder world" where
  "u_prepareTranscoding width height uncompressedByteLength encodedData bytesPerPixel w =
     (let n = length encodedData;
          m = width * height * bytesPerPixel;
          inPlace = u_transcodeInPlace (variant w);
          size = (if inPlace then n else n + m);
          grown = wasmMemory w @ replicate (size - length (wasmMemory w)) 0;
          w' = store_memory (encodedData @ drop n grown) w;
          textureView =
            \<lparr> buffer = WasmMemory (memoryBuffer w'), byteOffset = 0, byteLength = n \<rparr>;
          uncompressedTextureView =
            (if inPlace then None
             else Some \<lparr> buffer = WasmMemory (memoryBuffer w'), byteOffset = n,
                         byteLength = m \<rparr>)
      in (Inr (textureView, uncompressedTextureView), w'))"

subsection \<open>The variant\<close>

text \<open>
  The static fields \<open>WasmModuleURL\<close> and \<open>WasmBinary\<close> are public and assignable: they
  are the configuration of the variant, read when \<open>initialize\<close> runs.
  \<^verbatim>\<open>
  public static WasmModuleURL = "https://cdn.babylonjs.com/ktx2Transcoders/1/uastc_rgba8_unorm_v2.wasm";
  public static WasmBinary: ArrayBuffer | null = null;
  public static override Name = "UniversalTranscoder_UASTC_RGBA_UNORM";
  \<close>
\<close>

record statics =
  WasmModuleURL :: string
  WasmBinary :: "byte list option"

definition initial_statics :: statics where
  "initial_statics =
     \<lparr> WasmModuleURL = ''https://cdn.babylonjs.com/ktx2Transcoders/1/uastc_rgba8_unorm_v2.wasm'',
       WasmBinary = None \<rparr>"

definition Name :: string where
  "Name = ''UniversalTranscoder_UASTC_RGBA_UNORM''"

definition getName :: "LiteTranscoder \<Rightarrow> string" where
  "getName this = Name"

text \<open>
  \<^verbatim>\<open>
  public override initialize(): void {
      super.initialize();
      this._transcodeInPlace = false;
      this.setModulePath(LiteTranscoder_UASTC_RGBA_UNORM.WasmModuleURL,
                         LiteTranscoder_UASTC_RGBA_UNORM.WasmBinary);
  }
  \<close>
  \<open>super.initialize()\<close> is the base class's and is a parameter.
\<close>

definition initialize ::
  "(LiteTranscoder \<Rightarrow> LiteTranscoder) \<Rightarrow> statics \<Rightarrow> LiteTranscoder \<Rightarrow> LiteTranscoder" where
  "initialize super_initialize st this =
     setModulePath (WasmModuleURL st) (WasmBinary st)
       ((super_initialize this)\<lparr> u_transcodeInPlace := False \<rparr>)"

text \<open>The variant's \<open>transcode\<close>, on the base class as modelled.\<close>

definition variant_transcode ::
  "environment \<Rightarrow> SourceTextureFormat \<Rightarrow> TranscodeTarget \<Rightarrow> nat \<Rightarrow> nat \<Rightarrow> nat \<Rightarrow> nat \<Rightarrow> 'r
     \<Rightarrow> 'i option \<Rightarrow> byte list \<Rightarrow> LiteTranscoder world
     \<Rightarrow> (error + Uint8Array option) \<times> call list \<times> LiteTranscoder world" where
  "variant_transcode env = transcode (u_loadModule env) u_prepareTranscoding"

text \<open>
  The operations of the variant, as a caller can issue them on the object, and a run of
  them. The static fields are read at the moment \<open>initialize\<close> runs.
\<close>

datatype ('r, 'i) operation =
    Op_initialize statics
  | Op_getName
  | Op_CanTranscode SourceTextureFormat TranscodeTarget bool
  | Op_setModulePath string "byte list option"
  | Op_transcode SourceTextureFormat TranscodeTarget nat nat nat nat 'r "'i option" "byte list"

fun perform ::
  "(LiteTranscoder \<Rightarrow> LiteTranscoder) \<Rightarrow> environment \<Rightarrow> ('r, 'i) operation
     \<Rightarrow> LiteTranscoder world \<Rightarrow> LiteTranscoder world" where
  "perform super_initialize env (Op_initialize st) w =
     w\<lparr> variant := initialize super_initialize st (variant w) \<rparr>"
| "perform super_initialize env Op_getName w = w"
| "perform super_initialize env (Op_CanTranscode src dst isInGammaSpace) w = w"
| "perform super_initialize env (Op_setModulePath modulePath wasmBinary) w =
     w\<lparr> variant := setModulePath modulePath wasmBinary (variant w) \<rparr>"
| "perform super_initialize env
       (Op_transcode src dst level width height uncompressedByteLength ktx2Reader imageDesc
          encodedData) w =
     snd (snd (variant_transcode env src dst level width height uncompressedByteLength
                 ktx2Reader imageDesc encodedData w))"

fun run ::
  "(LiteTranscoder \<Rightarrow> LiteTranscoder) \<Rightarrow> environment \<Rightarrow> ('r, 'i) operation list
     \<Rightarrow> LiteTranscoder world \<Rightarrow> LiteTranscoder world" where
  "run super_initialize env [] w = w"
| "run super_initialize env (operation # operations) w =
     run super_initialize env operations (perform super_initialize env operation w)"

subsection \<open>Reading results, and what is asked of a decode module\<close>

text \<open>
  What a caller can read of an outcome: the rejection, \<open>null\<close>, or the bytes the returned
  typed array shows in the world the call left; and the length the typed array has.
\<close>

definition outcome_bytes :: "'t world \<Rightarrow> error + Uint8Array option \<Rightarrow> error + byte list option" where
  "outcome_bytes w outcome =
     (case outcome of
        Inl e \<Rightarrow> Inl e
      | Inr None \<Rightarrow> Inr None
      | Inr (Some view) \<Rightarrow> Inr (Some (bytes_of w view)))"


text \<open>
  The outcome of a call of a variant that does not transcode in place, as it follows from
  what \<open>decode\<close> returned: the input region is the first \<open>n\<close> bytes of the memory, the
  output region the \<open>m\<close> bytes behind it.
\<close>

definition expected_bytes ::
  "nat \<Rightarrow> nat \<Rightarrow> (error + int) \<times> byte list \<Rightarrow> error + byte list option" where
  "expected_bytes n m result =
     (case fst result of
        Inl e \<Rightarrow> Inl e
      | Inr status \<Rightarrow>
          if status = 0 then Inr (Some (take m (drop n (snd result)))) else Inr None)"

text \<open>A decode entry point that never grows the memory.\<close>

definition decode_keeps_length :: "exports \<Rightarrow> nat \<Rightarrow> nat \<Rightarrow> bool" where
  "decode_keeps_length transcoder width height \<longleftrightarrow>
     (\<forall>mem. length (snd (decode transcoder width height mem)) = length mem)"

text \<open>
  A decode entry point that reads its input region only: on two memories of one length
  that hold both regions and agree on the first \<open>n\<close> bytes, it returns the same status
  and, when that status is zero, leaves the same bytes in the output region. What else the
  two memories hold makes no difference.
\<close>

definition decode_reads_input_only :: "exports \<Rightarrow> nat \<Rightarrow> nat \<Rightarrow> nat \<Rightarrow> nat \<Rightarrow> bool" where
  "decode_reads_input_only transcoder width height n m \<longleftrightarrow>
     (\<forall>mem mem'.
        length mem = length mem' \<and> n + m \<le> length mem \<and> take n mem = take n mem' \<longrightarrow>
        fst (decode transcoder width height mem) = fst (decode transcoder width height mem') \<and>
        (fst (decode transcoder width height mem) = Inr 0 \<longrightarrow>
           take m (drop n (snd (decode transcoder width height mem))) =
           take m (drop n (snd (decode transcoder width height mem')))))"

subsection \<open>Example modules and an example world\<close>

text \<open>
  A decode module to run the model on. It takes one 16-byte block and an output region of
  width times height times 4 bytes behind it. When the memory does not hold both regions,
  or the bytes of the block add up to zero, its status is 1 and it writes nothing. Otherwise
  its status is 0 and it fills the output region with the sum of the block's bytes plus
  the width. The environment has no network and instantiates that module from any binary.
\<close>

definition example_decode :: "nat \<Rightarrow> nat \<Rightarrow> byte list \<Rightarrow> (error + int) \<times> byte list" where
  "example_decode width height mem =
     (let block = take 16 mem; m = width * height * 4
      in if length mem < 16 + m \<or> sum_list block = 0 then (Inr 1, mem)
         else (Inr 0, block @ replicate m (sum_list block + of_nat width) @ drop (16 + m) mem))"

definition example_module :: moduleWrapper where
  "example_module = \<lparr> module = \<lparr> decode = example_decode \<rparr> \<rparr>"

definition example_environment :: environment where
  "example_environment =
     \<lparr> fetch = (\<lambda>url. Inl (ModuleLoadFailed url)),
       instantiate = (\<lambda>binary. Inr example_module) \<rparr>"

definition example_statics :: statics where
  "example_statics = initial_statics\<lparr> WasmBinary := Some [0, 97, 115, 109] \<rparr>"

definition example_transcoder :: LiteTranscoder where
  "example_transcoder =
     initialize (\<lambda>this. this\<lparr> u_transcodeInPlace := True \<rparr>) example_statics
       \<lparr> u_transcodeInPlace = True, u_modulePath = [], u_wasmBinary = None,
         u_moduleBinding = Unloaded, loads = [] \<rparr>"

definition example_world :: "LiteTranscoder world" where
  "example_world =
     \<lparr> variant = example_transcoder, wasmMemory = [], memoryBuffer = 0, allocated = [] \<rparr>"

definition example_block :: "byte list" where
  "example_block = [1, 2, 3, 4, 5, 6, 7, 8, 9, 10, 11, 12, 13, 14, 15, 16]"

text \<open>The example world once its module is loaded.\<close>

definition example_loaded_world :: "LiteTranscoder world" where
  "example_loaded_world = snd (u_loadModule example_environment example_world)"

text \<open>
  A module that keeps a count in the memory: each run of its \<open>decode\<close> reads the first
  byte of the output region, adds one and fills the output region with that. It never
  grows the memory.
\<close>

definition counting_decode :: "nat \<Rightarrow> nat \<Rightarrow> byte list \<Rightarrow> (error + int) \<times> byte list" where
  "counting_decode width height mem =
     (if length mem \<le> 16 then (Inr 1, mem)
      else (Inr 0, take 16 mem @ replicate (length mem - 16) (mem ! 16 + 1)))"

definition counting_module :: moduleWrapper where
  "counting_module = \<lparr> module = \<lparr> decode = counting_decode \<rparr> \<rparr>"

definition counting_environment :: environment where
  "counting_environment =
     \<lparr> fetch = (\<lambda>url. Inl (ModuleLoadFailed url)),
       instantiate = (\<lambda>binary. Inr counting_module) \<rparr>"

definition counting_loaded_world :: "LiteTranscoder world" where
  "counting_loaded_world = snd (u_loadModule counting_environment example_world)"

text \<open>A module whose \<open>decode\<close> grows the memory by one byte and reports success.\<close>

definition growing_module :: moduleWrapper where
  "growing_module = \<lparr> module = \<lparr> decode = (\<lambda>width height mem. (Inr 0, mem @ [0])) \<rparr> \<rparr>"

text \<open>One request for a 4 by 4 image, run on a world with an environment.\<close>

definition example_transcode ::
  "environment \<Rightarrow> nat \<Rightarrow> LiteTranscoder world
     \<Rightarrow> (error + Uint8Array option) \<times> call list \<times> LiteTranscoder world" where
  "example_transcode env uncompressedByteLength =
     variant_transcode env UASTC4x4 RGBA32 0 4 4 uncompressedByteLength () (None :: unit option)
       example_block"

section \<open>The image processing configuration\<close>

subsection \<open>Values of the language\<close>

text \<open>
  A \<open>number\<close> is an IEEE double. The setters only compare numbers with \<open>===\<close>, so
  the finite values other than negative zero are taken as reals, and the values on which
  \<open>===\<close> is not plain identity are kept apart: \<open>NaN\<close> is strictly equal to nothing, not
  even to itself, and negative zero is strictly equal to positive zero.
\<close>

datatype number = Num real | NegZero | PosInfinity | NegInfinity | NaN

fun strict_eq :: "number \<Rightarrow> number \<Rightarrow> bool" where
  "strict_eq NaN b = False"
| "strict_eq a NaN = False"
| "strict_eq NegZero b = (b = NegZero \<or> b = Num 0)"
| "strict_eq a NegZero = (a = Num 0)"
| "strict_eq a b = (a = b)"

text \<open>
  \<open>Nullable<BaseTexture>\<close>: a reference to a texture object or \<open>null\<close>. The backing field
  \<open>_colorGradingTexture\<close> is declared without an initialiser, so it starts \<open>undefined\<close>.
  On these \<open>===\<close> is identity of the reference.
\<close>

datatype 'a nullable = Undefined | Null | Object 'a

type_synonym BaseTexture = nat
type_synonym ColorCurves = nat

text \<open>A \<open>Color4\<close> by its components r, g, b and a.\<close>

type_synonym Color4 = "number \<times> number \<times> number \<times> number"

subsection \<open>The configuration object\<close>

text \<open>
  The fields of \<open>ImageProcessingConfiguration\<close>, in the order of the class. A backing
  field \<open>_x\<close> of the source is \<open>u_x\<close> here. The observable \<open>onUpdateParameters\<close> lives in
  \<open>Misc/observable\<close>, which is not among the sources; of it the model keeps how many
  times \<open>notifyObservers\<close> has been called on it.
\<close>

record ImageProcessingConfiguration =
  colorCurves :: "ColorCurves nullable"
  u_colorCurvesEnabled :: bool
  u_colorGradingTexture :: "BaseTexture nullable"
  u_colorGradingEnabled :: bool
  u_colorGradingWithGreenDepth :: bool
  u_colorGradingBGR :: bool
  u_exposure :: number
  u_toneMappingEnabled :: bool
  u_toneMappingType :: number
  u_contrast :: number
  vignetteStretch :: number
  vignetteCenterX :: number
  vignetteCenterY :: number
  vignetteWeight :: number
  vignetteColor :: Color4
  vignetteCameraFov :: number
  u_vignetteBlendMode :: number
  u_vignetteEnabled :: bool
  u_ditheringEnabled :: bool
  u_ditheringIntensity :: number
  u_skipFinalColorClamp :: bool
  u_applyByPostProcess :: bool
  u_isEnabled :: bool
  onUpdateParameters_notified :: nat

definition TONEMAPPING_STANDARD :: number where
  "TONEMAPPING_STANDARD = Num 0"

definition TONEMAPPING_ACES :: number where
  "TONEMAPPING_ACES = Num 1"

definition VIGNETTEMODE_MULTIPLY :: number where
  "VIGNETTEMODE_MULTIPLY = Num 0"

definition VIGNETTEMODE_OPAQUE :: number where
  "VIGNETTEMODE_OPAQUE = Num 1"

text \<open>
  \<open>new ImageProcessingConfiguration()\<close>: the field initialisers of the class. The
  argument is the reference of the fresh \<open>ColorCurves\<close> object. The dithering intensity
  is the double that \<open>1.0 / 255.0\<close> evaluates to, which is 282578800148737 / 2^56 and not
  the real number 1/255.
\<close>

definition new_ImageProcessingConfiguration :: "ColorCurves \<Rightarrow> ImageProcessingConfiguration" where
  "new_ImageProcessingConfiguration curves =
     \<lparr> colorCurves = Object curves,
       u_colorCurvesEnabled = False,
       u_colorGradingTexture = Undefined,
       u_colorGradingEnabled = False,
       u_colorGradingWithGreenDepth = True,
       u_colorGradingBGR = True,
       u_exposure = Num 1,
       u_toneMappingEnabled = False,
       u_toneMappingType = TONEMAPPING_STANDARD,
       u_contrast = Num 1,
       vignetteStretch = Num 0,
       vignetteCenterX = Num 0,
       vignetteCenterY = Num 0,
       vignetteWeight = Num 1.5,
       vignetteColor = (Num 0, Num 0, Num 0, Num 0),
       vignetteCameraFov = Num 0.5,
       u_vignetteBlendMode = VIGNETTEMODE_MULTIPLY,
       u_vignetteEnabled = False,
       u_ditheringEnabled = False,
       u_ditheringIntensity = Num (282578800148737 / 2 ^ 56),
       u_skipFinalColorClamp = False,
       u_applyByPostProcess = False,
       u_isEnabled = True,
       onUpdateParameters_notified = 0 \<rparr>"

text \<open>
  \<^verbatim>\<open>
  protected _updateParameters(): void {
      this.onUpdateParameters.notifyObservers(this);
  }
  \<close>
\<close>

definition updateParameters :: "ImageProcessingConfiguration \<Rightarrow> ImageProcessingConfiguration" where
  "updateParameters this =
     this\<lparr> onUpdateParameters_notified := Suc (onUpdateParameters_notified this) \<rparr>"

subsection \<open>The guarded setters\<close>

text \<open>
  Each of the sixteen has the shape
  \<^verbatim>\<open>
  public set exposure(value: number) {
      if (this._exposure === value) {
          return;
      }
      this._exposure = value;
      this._updateParameters();
  }
  \<close>
  with \<open>===\<close> on booleans and references being equality, and on numbers \<open>strict_eq\<close>.
\<close>

definition set_colorCurvesEnabled :: "bool \<Rightarrow> ImageProcessingConfiguration \<Rightarrow> ImageProcessingConfiguration" where
  "set_colorCurvesEnabled v this =
     (if u_colorCurvesEnabled this = v then this
      else updateParameters (this\<lparr> u_colorCurvesEnabled := v \<rparr>))"

definition set_colorGradingTexture :: "BaseTexture nullable \<Rightarrow> ImageProcessingConfiguration \<Rightarrow> ImageProcessingConfiguration" where
  "set_colorGradingTexture v this =
     (if u_colorGradingTexture this = v then this
      else updateParameters (this\<lparr> u_colorGradingTexture := v \<rparr>))"

definition set_colorGradingEnabled :: "bool \<Rightarrow> ImageProcessingConfiguration \<Rightarrow> ImageProcessingConfiguration" where
  "set_colorGradingEnabled v this =
     (if u_colorGradingEnabled this = v then this
      else updateParameters (this\<lparr> u_colorGradingEnabled := v \<rparr>))"

definition set_colorGradingWithGreenDepth :: "bool \<Rightarrow> ImageProcessingConfiguration \<Rightarrow> ImageProcessingConfiguration" where
  "set_colorGradingWithGreenDepth v this =
     (if u_colorGradingWithGreenDepth this = v then this
      else updateParameters (this\<lparr> u_colorGradingWithGreenDepth := v \<rparr>))"

definition set_colorGradingBGR :: "bool \<Rightarrow> ImageProcessingConfiguration \<Rightarrow> ImageProcessingConfiguration" where
  "set_colorGradingBGR v this =
     (if u_colorGradingBGR this = v then this
      else updateParameters (this\<lparr> u_colorGradingBGR := v \<rparr>))"

definition set_exposure :: "number \<Rightarrow> ImageProcessingConfiguration \<Rightarrow> ImageProcessingConfiguration" where
  "set_exposure v this =
     (if strict_eq (u_exposure this) v then this
      else updateParameters (this\<lparr> u_exposure := v \<rparr>))"

definition set_toneMappingEnabled :: "bool \<Rightarrow> ImageProcessingConfiguration \<Rightarrow> ImageProcessingConfiguration" where
  "set_toneMappingEnabled v this =
     (if u_toneMappingEnabled this = v then this
      else updateParameters (this\<lparr> u_toneMappingEnabled := v \<rparr>))"

definition set_toneMappingType :: "number \<Rightarrow> ImageProcessingConfiguration \<Rightarrow> ImageProcessingConfiguration" where
  "set_toneMappingType v this =
     (if strict_eq (u_toneMappingType this) v then this
      else updateParameters (this\<lparr> u_toneMappingType := v \<rparr>))"

definition set_contrast :: "number \<Rightarrow> ImageProcessingConfiguration \<Rightarrow> ImageProcessingConfiguration" where
  "set_contrast v this =
     (if strict_eq (u_contrast this) v then this
      else updateParameters (this\<lparr> u_contrast := v \<rparr>))"

definition set_vignetteBlendMode :: "number \<Rightarrow> ImageProcessingConfiguration \<Rightarrow> ImageProcessingConfiguration" where
  "set_vignetteBlendMode v this =
     (if strict_eq (u_vignetteBlendMode this) v then this
      else updateParameters (this\<lparr> u_vignetteBlendMode := v \<rparr>))"

definition set_vignetteEnabled :: "bool \<Rightarrow> ImageProcessingConfiguration \<Rightarrow> ImageProcessingConfiguration" where
  "set_vignetteEnabled v this =
     (if u_vignetteEnabled this = v then this
      else updateParameters (this\<lparr> u_vignetteEnabled := v \<rparr>))"

definition set_ditheringEnabled :: "bool \<Rightarrow> ImageProcessingConfiguration \<Rightarrow> ImageProcessingConfiguration" where
  "set_ditheringEnabled v this =
     (if u_ditheringEnabled this = v then this
      else updateParameters (this\<lparr> u_ditheringEnabled := v \<rparr>))"

definition set_ditheringIntensity :: "number \<Rightarrow> ImageProcessingConfiguration \<Rightarrow> ImageProcessingConfiguration" where
  "set_ditheringIntensity v this =
     (if strict_eq (u_ditheringIntensity this) v then this
      else updateParameters (this\<lparr> u_ditheringIntensity := v \<rparr>))"

definition set_skipFinalColorClamp :: "bool \<Rightarrow> ImageProcessingConfiguration \<Rightarrow> ImageProcessingConfiguration" where
  "set_skipFinalColorClamp v this =
     (if u_skipFinalColorClamp this = v then this
      else updateParameters (this\<lparr> u_skipFinalColorClamp := v \<rparr>))"

definition set_applyByPostProcess :: "bool \<Rightarrow> ImageProcessingConfiguration \<Rightarrow> ImageProcessingConfiguration" where
  "set_applyByPostProcess v this =
     (if u_applyByPostProcess this = v then this
      else updateParameters (this\<lparr> u_applyByPostProcess := v \<rparr>))"

definition set_isEnabled :: "bool \<Rightarrow> ImageProcessingConfiguration \<Rightarrow> ImageProcessingConfiguration" where
  "set_isEnabled v this =
     (if u_isEnabled this = v then this
      else updateParameters (this\<lparr> u_isEnabled := v \<rparr>))"

section \<open>Theorems\<close>

text \<open>
  C1. The capability check is a predicate of its three arguments alone: the triples it
  accepts are exactly the single triple (UASTC4x4, RGBA32, linear), so it answers true
  there and false on every other triple. It takes no state and returns none.
\<close>

theorem CanTranscode_exact:
  "{(src, dst, isInGammaSpace). CanTranscode src dst isInGammaSpace} = {(UASTC4x4, RGBA32, False)}"
  by (auto simp: CanTranscode_def)

subsection \<open>Buffers and copies\<close>

lemma slice_usable:
  "usable w view \<Longrightarrow>
   slice view w =
     (Inr \<lparr> buffer = Allocated (length (allocated w)), byteOffset = 0,
            byteLength = byteLength view \<rparr>,
      w\<lparr> allocated := allocated w @ [bytes_of w view] \<rparr>)"
  by (simp add: slice_def)

lemma slice_unusable: "\<not> usable w view \<Longrightarrow> slice view w = (Inl TypeError, w)"
  by (simp add: slice_def)

lemma usable_length: "usable w view \<Longrightarrow> length (bytes_of w view) = byteLength view"
  by (auto simp: usable_def bytes_of_def split: option.splits)

lemma fresh_buffer: "contents w (Allocated (length (allocated w))) = None"
  by (simp add: contents_def)

lemma copy_bytes:
  "length bs = n \<Longrightarrow>
   bytes_of (w\<lparr> allocated := allocated w @ [bs] \<rparr>)
     \<lparr> buffer = Allocated (length (allocated w)), byteOffset = 0, byteLength = n \<rparr> = bs"
  by (simp add: bytes_of_def contents_def)


lemma write_elsewhere:
  "buf \<noteq> buffer v \<Longrightarrow> bytes_of (write_byte buf i x w) v = bytes_of w v"
  by (cases buf; cases "buffer v")
    (auto simp: write_byte_def bytes_of_def contents_def nth_list_update)

lemma store_memory_variant: "variant (store_memory mem w) = variant w"
  by (simp add: store_memory_def)

lemma slice_variant: "variant (snd (slice view w)) = variant w"
  by (simp add: slice_def)

subsection \<open>One call of transcode\<close>

lemma transcode_load_rejected:
  "loadModule w = (Inl e, w1) \<Longrightarrow>
   transcode loadModule prepareTranscoding src dst level width height
     uncompressedByteLength ktx2Reader imageDesc encodedData w = (Inl e, [Call_loadModule], w1)"
  by (simp add: transcode_def invoke_loadModule_def)

lemma transcode_prepare_rejected:
  "loadModule w = (Inr moduleWrapper, w1) \<Longrightarrow>
   prepareTranscoding width height uncompressedByteLength encodedData 4 w1 = (Inl e, w2) \<Longrightarrow>
   transcode loadModule prepareTranscoding src dst level width height
     uncompressedByteLength ktx2Reader imageDesc encodedData w =
   (Inl e,
    [Call_loadModule, Call_prepareTranscoding width height uncompressedByteLength encodedData 4],
    w2)"
  by (simp add: transcode_def invoke_loadModule_def invoke_prepareTranscoding_def)

lemma transcode_decoded:
  assumes "loadModule w = (Inr moduleWrapper, w1)"
    and "prepareTranscoding width height uncompressedByteLength encodedData 4 w1 =
           (Inr (textureView, uncompressedTextureView), w2)"
    and "decode (module moduleWrapper) width height (wasmMemory w2) = (result, mem)"
  shows "transcode loadModule prepareTranscoding src dst level width height
           uncompressedByteLength ktx2Reader imageDesc encodedData w =
         (let calls = [Call_loadModule,
                 Call_prepareTranscoding width height uncompressedByteLength encodedData 4,
                 Call_decode width height];
              w3 = store_memory mem w2
          in case result of
               Inl e \<Rightarrow> (Inl e, calls, w3)
             | Inr status \<Rightarrow>
                 if status = 0 then
                   (case uncompressedTextureView of
                      None \<Rightarrow> (Inl TypeError, calls, w3)
                    | Some view \<Rightarrow>
                        (case slice view w3 of
                           (Inl e, w4) \<Rightarrow> (Inl e, calls @ [Call_slice view], w4)
                         | (Inr copy, w4) \<Rightarrow> (Inr (Some copy), calls @ [Call_slice view], w4)))
                 else (Inr None, calls, w3))"
  using assms
  by (simp add: transcode_def invoke_loadModule_def invoke_prepareTranscoding_def
      invoke_decode_def invoke_slice_def Let_def
      split: sum.splits option.splits prod.splits)

text \<open>
  C2. In a call where the decode entry point is reached (the load was fulfilled and the
  working memory prepared) and returns a status other than zero, \<open>transcode\<close> is
  fulfilled with \<open>null\<close>: the outcome is \<open>Inr None\<close>, which is neither a rejection
  (\<open>Inl\<close>) nor a buffer. Nothing is allocated, and the world is left as \<open>decode\<close> left it.
\<close>

theorem transcode_nonzero_status_gives_null:
  assumes "loadModule w = (Inr moduleWrapper, w1)"
    and "prepareTranscoding width height uncompressedByteLength encodedData 4 w1 = (Inr views, w2)"
    and "decode (module moduleWrapper) width height (wasmMemory w2) = (Inr status, mem)"
    and "status \<noteq> 0"
  shows "transcode loadModule prepareTranscoding src dst level width height
           uncompressedByteLength ktx2Reader imageDesc encodedData w =
         (Inr None,
          [Call_loadModule,
           Call_prepareTranscoding width height uncompressedByteLength encodedData 4,
           Call_decode width height],
          store_memory mem w2)"
proof -
  obtain textureView uncompressedTextureView where v: "views = (textureView, uncompressedTextureView)"
    by (cases views)
  show ?thesis
    using transcode_decoded [where loadModule = loadModule
        and prepareTranscoding = prepareTranscoding, OF assms(1) assms(2) [unfolded v] assms(3)]
      assms(4)
    by simp
qed

text \<open>
  C3. In a call where the decode entry point returns zero, \<open>transcode\<close> calls \<open>slice\<close>
  on the output view. When the view can still be used, the typed array returned sits on a
  buffer that did not exist before and is no buffer of the module's memory, it has the
  length of the view and holds the bytes the view showed when \<open>decode\<close> returned, and no
  later write through any other buffer, the module's memory among them, shows in it. When
  \<open>decode\<close> has grown the memory, so that the view's buffer is detached, or the view is
  out of bounds, \<open>slice\<close> throws and the call is rejected with a \<open>TypeError\<close>: no
  buffer is returned, and none that aliases the memory.
\<close>

theorem transcode_success_returns_copy:
  assumes "loadModule w = (Inr moduleWrapper, w1)"
    and "prepareTranscoding width height uncompressedByteLength encodedData 4 w1 =
           (Inr (textureView, Some view), w2)"
    and "decode (module moduleWrapper) width height (wasmMemory w2) = (Inr 0, mem)"
  shows "(usable (store_memory mem w2) view \<longrightarrow>
           (\<exists>copy w4.
              transcode loadModule prepareTranscoding src dst level width height
                uncompressedByteLength ktx2Reader imageDesc encodedData w =
              (Inr (Some copy),
               [Call_loadModule,
                Call_prepareTranscoding width height uncompressedByteLength encodedData 4,
                Call_decode width height, Call_slice view],
               w4) \<and>
              (\<forall>g. buffer copy \<noteq> WasmMemory g) \<and>
              contents (store_memory mem w2) (buffer copy) = None \<and>
              byteLength copy = byteLength view \<and>
              length (bytes_of w4 copy) = byteLength view \<and>
              bytes_of w4 copy = bytes_of (store_memory mem w2) view \<and>
              wasmMemory w4 = mem \<and>
              (\<forall>buf i x. buf \<noteq> buffer copy \<longrightarrow>
                 bytes_of (write_byte buf i x w4) copy = bytes_of w4 copy))) \<and>
         (\<not> usable (store_memory mem w2) view \<longrightarrow>
            transcode loadModule prepareTranscoding src dst level width height
              uncompressedByteLength ktx2Reader imageDesc encodedData w =
            (Inl TypeError,
             [Call_loadModule,
              Call_prepareTranscoding width height uncompressedByteLength encodedData 4,
              Call_decode width height, Call_slice view],
             store_memory mem w2))"
proof -
  let ?w3 = "store_memory mem w2"
  let ?copy = "\<lparr> buffer = Allocated (length (allocated ?w3)), byteOffset = 0,
            byteLength = byteLength view \<rparr>"
  let ?w4 = "?w3\<lparr> allocated := allocated ?w3 @ [bytes_of ?w3 view] \<rparr>"
  note run = transcode_decoded [where loadModule = loadModule
        and prepareTranscoding = prepareTranscoding and src = src and dst = dst
        and level = level and ktx2Reader = ktx2Reader and imageDesc = imageDesc, OF assms]
  show ?thesis
  proof (intro conjI impI)
    assume u: "usable ?w3 view"
    have b: "bytes_of ?w4 ?copy = bytes_of ?w3 view"
      using copy_bytes [OF usable_length [OF u]] .
    have m: "wasmMemory ?w4 = mem"
      by (simp add: store_memory_def)
    have e: "\<forall>buf i x. buf \<noteq> buffer ?copy \<longrightarrow>
        bytes_of (write_byte buf i x ?w4) ?copy = bytes_of ?w4 ?copy"
      using write_elsewhere [of _ ?copy _ _ ?w4] by blast
    have r: "transcode loadModule prepareTranscoding src dst level width height
                uncompressedByteLength ktx2Reader imageDesc encodedData w =
              (Inr (Some ?copy),
               [Call_loadModule,
                Call_prepareTranscoding width height uncompressedByteLength encodedData 4,
                Call_decode width height, Call_slice view],
               ?w4)"
      using run by (simp add: slice_usable [OF u])
    show "\<exists>copy w4.
              transcode loadModule prepareTranscoding src dst level width height
                uncompressedByteLength ktx2Reader imageDesc encodedData w =
              (Inr (Some copy),
               [Call_loadModule,
                Call_prepareTranscoding width height uncompressedByteLength encodedData 4,
                Call_decode width height, Call_slice view],
               w4) \<and>
              (\<forall>g. buffer copy \<noteq> WasmMemory g) \<and>
              contents (store_memory mem w2) (buffer copy) = None \<and>
              byteLength copy = byteLength view \<and>
              length (bytes_of w4 copy) = byteLength view \<and>
              bytes_of w4 copy = bytes_of (store_memory mem w2) view \<and>
              wasmMemory w4 = mem \<and>
              (\<forall>buf i x. buf \<noteq> buffer copy \<longrightarrow>
                 bytes_of (write_byte buf i x w4) copy = bytes_of w4 copy)"
      using r b m e usable_length [OF u] fresh_buffer [of ?w3]
      by (intro exI [of _ ?copy] exI [of _ ?w4]) simp
  next
    assume "\<not> usable ?w3 view"
    then show "transcode loadModule prepareTranscoding src dst level width height
              uncompressedByteLength ktx2Reader imageDesc encodedData w =
            (Inl TypeError,
             [Call_loadModule,
              Call_prepareTranscoding width height uncompressedByteLength encodedData 4,
              Call_decode width height, Call_slice view],
             ?w3)"
      using run by (simp add: slice_unusable)
  qed
qed

lemma transcode_decoded_facts:
  assumes "loadModule w = (Inr moduleWrapper, w1)"
    and "prepareTranscoding width height uncompressedByteLength encodedData 4 w1 =
           (Inr views, w2)"
    and "decode (module moduleWrapper) width height (wasmMemory w2) = (result, mem)"
  shows "take 3 (fst (snd (transcode loadModule prepareTranscoding src dst level width height
           uncompressedByteLength ktx2Reader imageDesc encodedData w))) =
         [Call_loadModule,
          Call_prepareTranscoding width height uncompressedByteLength encodedData 4,
          Call_decode width height] \<and>
         wasmMemory (snd (snd (transcode loadModule prepareTranscoding src dst level width
           height uncompressedByteLength ktx2Reader imageDesc encodedData w))) = mem \<and>
         (case result of
            Inl e \<Rightarrow>
              fst (transcode loadModule prepareTranscoding src dst level width height
                uncompressedByteLength ktx2Reader imageDesc encodedData w) = Inl e
          | Inr status \<Rightarrow>
              (fst (transcode loadModule prepareTranscoding src dst level width height
                 uncompressedByteLength ktx2Reader imageDesc encodedData w) = Inr None)
              = (status \<noteq> 0))"
proof -
  obtain textureView uncompressedTextureView where v: "views = (textureView, uncompressedTextureView)"
    by (cases views)
  have s: "wasmMemory (snd (slice view (store_memory mem w2))) = mem" for view
    by (simp add: slice_def store_memory_def)
  note run = transcode_decoded [where loadModule = loadModule
        and prepareTranscoding = prepareTranscoding and src = src and dst = dst
        and level = level and ktx2Reader = ktx2Reader and imageDesc = imageDesc,
        OF assms(1) assms(2) [unfolded v] assms(3)]
  show ?thesis
  proof (cases result)
    case (Inl e)
    then show ?thesis
      using run by (simp add: store_memory_def)
  next
    case (Inr status)
    show ?thesis
    proof (cases "status = 0")
      case False
      with Inr show ?thesis
        using run by (simp add: store_memory_def)
    next
      case True
      show ?thesis
      proof (cases uncompressedTextureView)
        case None
        with Inr True show ?thesis
          using run by (simp add: store_memory_def)
      next
        case (Some view)
        obtain r w4 where sl: "slice view (store_memory mem w2) = (r, w4)"
          by (cases "slice view (store_memory mem w2)")
        with s [of view] have "wasmMemory w4 = mem" by simp
        with Inr True Some sl show ?thesis
          using run by (cases r) simp_all
      qed
    qed
  qed
qed

lemma transcode_calls_prefix:
  "\<exists>view. prefix
      (fst (snd (transcode loadModule prepareTranscoding src dst level width height
        uncompressedByteLength ktx2Reader imageDesc encodedData w)))
      [Call_loadModule,
       Call_prepareTranscoding width height uncompressedByteLength encodedData 4,
       Call_decode width height, Call_slice view]"
  by (simp add: transcode_def invoke_loadModule_def invoke_prepareTranscoding_def
      invoke_decode_def invoke_slice_def Let_def
      split: prod.splits sum.splits option.splits)

text \<open>
  C5. The steps of one \<open>transcode\<close> run in one order, each on what the step before it
  left. When the load is rejected, the load is the only call made and its rejection is
  the outcome, in the world the load left. When the load is fulfilled and the preparation
  throws, the calls are the load and the preparation, and nothing else. When both are
  through, the third call is \<open>decode\<close> with the width and the height of the request, it
  runs on the memory the preparation left, the memory of the final world is the memory
  that run returned, and the outcome follows its result: its trap, \<open>null\<close> exactly when
  the status is not zero. The calls are always a beginning of load, preparation, decode,
  slice, and \<open>decode\<close> is among them only when the load was fulfilled.
\<close>

theorem transcode_order:
  "(\<forall>e w1. loadModule w = (Inl e, w1) \<longrightarrow>
      transcode loadModule prepareTranscoding src dst level width height
        uncompressedByteLength ktx2Reader imageDesc encodedData w =
      (Inl e, [Call_loadModule], w1)) \<and>
   (\<forall>moduleWrapper w1 e w2.
      loadModule w = (Inr moduleWrapper, w1) \<and>
      prepareTranscoding width height uncompressedByteLength encodedData 4 w1 = (Inl e, w2) \<longrightarrow>
      transcode loadModule prepareTranscoding src dst level width height
        uncompressedByteLength ktx2Reader imageDesc encodedData w =
      (Inl e,
       [Call_loadModule,
        Call_prepareTranscoding width height uncompressedByteLength encodedData 4], w2)) \<and>
   (\<forall>moduleWrapper w1 views w2 result mem.
      loadModule w = (Inr moduleWrapper, w1) \<and>
      prepareTranscoding width height uncompressedByteLength encodedData 4 w1 = (Inr views, w2) \<and>
      decode (module moduleWrapper) width height (wasmMemory w2) = (result, mem) \<longrightarrow>
      take 3 (fst (snd (transcode loadModule prepareTranscoding src dst level width height
        uncompressedByteLength ktx2Reader imageDesc encodedData w))) =
      [Call_loadModule,
       Call_prepareTranscoding width height uncompressedByteLength encodedData 4,
       Call_decode width height] \<and>
      wasmMemory (snd (snd (transcode loadModule prepareTranscoding src dst level width
        height uncompressedByteLength ktx2Reader imageDesc encodedData w))) = mem \<and>
      (case result of
         Inl e \<Rightarrow>
           fst (transcode loadModule prepareTranscoding src dst level width height
             uncompressedByteLength ktx2Reader imageDesc encodedData w) = Inl e
       | Inr status \<Rightarrow>
           (fst (transcode loadModule prepareTranscoding src dst level width height
              uncompressedByteLength ktx2Reader imageDesc encodedData w) = Inr None)
           = (status \<noteq> 0))) \<and>
   (\<exists>view. prefix
      (fst (snd (transcode loadModule prepareTranscoding src dst level width height
        uncompressedByteLength ktx2Reader imageDesc encodedData w)))
      [Call_loadModule,
       Call_prepareTranscoding width height uncompressedByteLength encodedData 4,
       Call_decode width height, Call_slice view]) \<and>
   (Call_decode width height \<in> set (fst (snd (transcode loadModule prepareTranscoding src dst
        level width height uncompressedByteLength ktx2Reader imageDesc encodedData w))) \<longrightarrow>
      (\<exists>moduleWrapper w1. loadModule w = (Inr moduleWrapper, w1)))"
proof (intro conjI allI impI)
  fix e w1 assume "loadModule w = (Inl e, w1)"
  then show "transcode loadModule prepareTranscoding src dst level width height
        uncompressedByteLength ktx2Reader imageDesc encodedData w = (Inl e, [Call_loadModule], w1)"
    by (rule transcode_load_rejected)
next
  fix moduleWrapper w1 e w2
  assume h: "loadModule w = (Inr moduleWrapper, w1) \<and>
      prepareTranscoding width height uncompressedByteLength encodedData 4 w1 = (Inl e, w2)"
  show "transcode loadModule prepareTranscoding src dst level width height
        uncompressedByteLength ktx2Reader imageDesc encodedData w =
      (Inl e,
       [Call_loadModule,
        Call_prepareTranscoding width height uncompressedByteLength encodedData 4], w2)"
    by (rule transcode_prepare_rejected [where loadModule = loadModule
        and prepareTranscoding = prepareTranscoding, OF h [THEN conjunct1] h [THEN conjunct2]])
next
  fix moduleWrapper w1 views w2 result mem
  assume h: "loadModule w = (Inr moduleWrapper, w1) \<and>
      prepareTranscoding width height uncompressedByteLength encodedData 4 w1 = (Inr views, w2) \<and>
      decode (module moduleWrapper) width height (wasmMemory w2) = (result, mem)"
  note facts = transcode_decoded_facts [where loadModule = loadModule
        and prepareTranscoding = prepareTranscoding and src = src and dst = dst
        and level = level and ktx2Reader = ktx2Reader and imageDesc = imageDesc,
        OF h [THEN conjunct1] h [THEN conjunct2, THEN conjunct1]
           h [THEN conjunct2, THEN conjunct2]]
  from facts show "take 3 (fst (snd (transcode loadModule prepareTranscoding src dst level width height
        uncompressedByteLength ktx2Reader imageDesc encodedData w))) =
      [Call_loadModule,
       Call_prepareTranscoding width height uncompressedByteLength encodedData 4,
       Call_decode width height]"
    by (rule conjunct1)
  from facts show "wasmMemory (snd (snd (transcode loadModule prepareTranscoding src dst level width
        height uncompressedByteLength ktx2Reader imageDesc encodedData w))) = mem"
    by (rule conjunct2 [THEN conjunct1])
  from facts show "case result of
         Inl e \<Rightarrow>
           fst (transcode loadModule prepareTranscoding src dst level width height
             uncompressedByteLength ktx2Reader imageDesc encodedData w) = Inl e
       | Inr status \<Rightarrow>
           (fst (transcode loadModule prepareTranscoding src dst level width height
              uncompressedByteLength ktx2Reader imageDesc encodedData w) = Inr None)
           = (status \<noteq> 0)"
    by (rule conjunct2 [THEN conjunct2])
next
  show "\<exists>view. prefix
      (fst (snd (transcode loadModule prepareTranscoding src dst level width height
        uncompressedByteLength ktx2Reader imageDesc encodedData w)))
      [Call_loadModule,
       Call_prepareTranscoding width height uncompressedByteLength encodedData 4,
       Call_decode width height, Call_slice view]"
    by (rule transcode_calls_prefix)
next
  assume dec: "Call_decode width height \<in> set (fst (snd (transcode loadModule prepareTranscoding src dst
        level width height uncompressedByteLength ktx2Reader imageDesc encodedData w)))"
  obtain outcome w1 where lw: "loadModule w = (outcome, w1)"
    by (cases "loadModule w")
  show "\<exists>moduleWrapper w1. loadModule w = (Inr moduleWrapper, w1)"
  proof (cases outcome)
    case (Inl e)
    with lw dec show ?thesis
      by (simp add: transcode_load_rejected)
  next
    case (Inr m)
    with lw show ?thesis by blast
  qed
qed

subsection \<open>The module lifecycle\<close>

lemma ensureLoaded_all_while_loading:
  "u_moduleBinding this = Loading source waiters \<Longrightarrow>
   ensureLoaded_all callers this =
     (replicate (length callers) (Pending source),
      this\<lparr> u_moduleBinding := Loading source (waiters @ callers) \<rparr>)"
proof (induction callers arbitrary: this waiters)
  case Nil
  then show ?case by simp
next
  case (Cons caller callers)
  have step: "ensureLoaded caller this =
      (Pending source, this\<lparr> u_moduleBinding := Loading source (waiters @ [caller]) \<rparr>)"
    using Cons.prems by (simp add: ensureLoaded_def)
  have "u_moduleBinding (this\<lparr> u_moduleBinding := Loading source (waiters @ [caller]) \<rparr>) =
      Loading source (waiters @ [caller])"
    by simp
  from Cons.IH [OF this] step show ?case by simp
qed

lemma ensureLoaded_all_from_unloaded:
  assumes "u_moduleBinding this = Unloaded" and "callers \<noteq> []"
  shows "ensureLoaded_all callers this =
     (replicate (length callers) (Pending (module_source this)),
      this\<lparr> u_moduleBinding := Loading (module_source this) callers,
            loads := loads this @ [module_source this] \<rparr>)"
proof -
  obtain caller rest where cs: "callers = caller # rest"
    using assms(2) by (cases callers) auto
  let ?this1 = "this\<lparr> u_moduleBinding := Loading (module_source this) [caller],
            loads := loads this @ [module_source this] \<rparr>"
  have first: "ensureLoaded caller this = (Pending (module_source this), ?this1)"
    using assms(1) by (simp add: ensureLoaded_def start_load_def)
  have "u_moduleBinding ?this1 = Loading (module_source this) [caller]"
    by simp
  from ensureLoaded_all_while_loading [OF this, of rest] first cs show ?thesis
    by simp
qed

text \<open>
  C4. On an unloaded variant, any number of callers asking for the module before the load
  settles start exactly one load: each of them is left waiting on the same pending load,
  the list of loads started grows by that one entry, and when the load settles every
  caller receives the same outcome, the module or the failure, and no further load has
  been started.
\<close>

text \<open>
  C4. On an unloaded variant, any number of callers asking for the module before the load
  settles start exactly one load: each of them is left waiting on the same pending load,
  the list of loads started grows by that one entry, and when the load settles every
  caller receives the same outcome, the module or the failure, and no further load has
  been started.
\<close>

theorem concurrent_callers_share_one_load:
  assumes "u_moduleBinding this = Unloaded" and "callers \<noteq> []"
  shows "fst (ensureLoaded_all callers this) =
           replicate (length callers) (Pending (module_source this)) \<and>
         loads (snd (ensureLoaded_all callers this)) = loads this @ [module_source this] \<and>
         u_moduleBinding (snd (ensureLoaded_all callers this)) =
           Loading (module_source this) callers \<and>
         fst (settle outcome (snd (ensureLoaded_all callers this))) =
           map (\<lambda>caller. (caller, outcome)) callers \<and>
         u_moduleBinding (snd (settle outcome (snd (ensureLoaded_all callers this)))) =
           (case outcome of Inl e \<Rightarrow> Failed e | Inr m \<Rightarrow> Loaded m) \<and>
         loads (snd (settle outcome (snd (ensureLoaded_all callers this)))) =
           loads this @ [module_source this]"
  by (simp add: ensureLoaded_all_from_unloaded [OF assms] settle_def)

lemma initialize_config:
  "u_modulePath (initialize super_initialize st this) = WasmModuleURL st \<and>
   u_wasmBinary (initialize super_initialize st this) = WasmBinary st"
  by (simp add: initialize_def setModulePath_def)

lemma u_loadModule_unloaded:
  "u_moduleBinding (variant w) = Unloaded \<Longrightarrow>
   u_loadModule env w =
     (perform_load env (module_source (variant w)),
      w\<lparr> variant := (variant w)\<lparr>
           u_moduleBinding :=
             (case perform_load env (module_source (variant w)) of
                Inl e \<Rightarrow> Failed e | Inr m \<Rightarrow> Loaded m),
           loads := loads (variant w) @ [module_source (variant w)] \<rparr> \<rparr>)"
  by (simp add: u_loadModule_def ensureLoaded_def start_load_def settle_def Let_def)

text \<open>
  C7. The configuration of the variant is a module URL and an inline binary that is
  \<open>null\<close> unless set. \<open>initialize\<close> hands both to \<open>setModulePath\<close>. When the
  binary is set, the load of an unloaded variant instantiates that binary: its outcome is
  what instantiation gives, the one load started is from the binary, and whatever a fetch
  would have returned makes no difference.
\<close>

text \<open>
  C7. The configuration of the variant is a module URL and an inline binary that is
  \<open>null\<close> unless set. \<open>initialize\<close> hands both to \<open>setModulePath\<close>. When the
  binary is set, the load of an unloaded variant instantiates that binary: its outcome is
  what instantiation gives, the one load started is from the binary, and whatever a fetch
  would have returned makes no difference.
\<close>

theorem inline_binary_takes_precedence:
  assumes "variant w = initialize super_initialize st this"
    and "u_moduleBinding (variant w) = Unloaded"
    and "WasmBinary st = Some binary"
  shows "WasmBinary initial_statics = None \<and>
         u_modulePath (variant w) = WasmModuleURL st \<and>
         u_wasmBinary (variant w) = Some binary \<and>
         fst (u_loadModule env w) = instantiate env binary \<and>
         loads (variant (snd (u_loadModule env w))) = loads (variant w) @ [FromBinary binary] \<and>
         (\<forall>f. u_loadModule (env\<lparr> fetch := f \<rparr>) w = u_loadModule env w)"
proof -
  have cfg: "u_modulePath (variant w) = WasmModuleURL st" "u_wasmBinary (variant w) = Some binary"
    using assms(1,3) initialize_config [of super_initialize st this] by simp_all
  then have src: "module_source (variant w) = FromBinary binary"
    by (simp add: module_source_def)
  show ?thesis
    using cfg
    by (simp add: u_loadModule_unloaded [OF assms(2)] src perform_load_def initial_statics_def)
qed

subsection \<open>The in-place flag\<close>

subsection \<open>The in-place flag\<close>

lemma initialize_flag: "u_transcodeInPlace (initialize super_initialize st this) = False"
  by (simp add: initialize_def setModulePath_def)

lemma setModulePath_flag:
  "u_transcodeInPlace (setModulePath modulePath wasmBinary this) = u_transcodeInPlace this"
  by (simp add: setModulePath_def)

lemma ensureLoaded_flag:
  "u_transcodeInPlace (snd (ensureLoaded caller this)) = u_transcodeInPlace this"
  by (simp add: ensureLoaded_def start_load_def split: ModuleBinding.splits)

lemma settle_flag:
  "u_transcodeInPlace (snd (settle outcome this)) = u_transcodeInPlace this"
  by (simp add: settle_def split: ModuleBinding.splits)

lemma u_loadModule_flag:
  "u_transcodeInPlace (variant (snd (u_loadModule env w))) = u_transcodeInPlace (variant w)"
proof (cases "ensureLoaded 0 (variant w)")
  case (Pair now this)
  with ensureLoaded_flag [of 0 "variant w"] have "u_transcodeInPlace this = u_transcodeInPlace (variant w)"
    by simp
  with Pair show ?thesis
    by (cases now) (simp_all add: u_loadModule_def settle_flag Let_def)
qed

lemma u_prepareTranscoding_variant:
  "variant (snd (u_prepareTranscoding width height uncompressedByteLength encodedData k w)) = variant w"
  by (simp add: u_prepareTranscoding_def Let_def store_memory_variant)

lemma transcode_variant:
  assumes "loadModule w = (result, w1)"
    and "\<And>a b c d e w. variant (snd (prepareTranscoding a b c d e w)) = variant w"
  shows "variant (snd (snd (transcode loadModule prepareTranscoding src dst level width
           height uncompressedByteLength ktx2Reader imageDesc encodedData w))) = variant w1"
proof (cases result)
  case (Inl e)
  with assms(1) show ?thesis
    by (simp add: transcode_load_rejected)
next
  case (Inr moduleWrapper)
  obtain prepared w2 where p:
    "prepareTranscoding width height uncompressedByteLength encodedData 4 w1 = (prepared, w2)"
    by (cases "prepareTranscoding width height uncompressedByteLength encodedData 4 w1")
  have v2: "variant w2 = variant w1"
    using assms(2) [of width height uncompressedByteLength encodedData 4 w1] p by simp
  show ?thesis
  proof (cases prepared)
    case (Inl e)
    with Inr assms(1) p v2 show ?thesis
      by (simp add: transcode_prepare_rejected [where loadModule = loadModule
            and prepareTranscoding = prepareTranscoding])
  next
    case views: (Inr views)
    obtain textureView uncompressedTextureView where
      v: "views = (textureView, uncompressedTextureView)"
      by (cases views)
    obtain r mem where d: "decode (module moduleWrapper) width height (wasmMemory w2) = (r, mem)"
      by (cases "decode (module moduleWrapper) width height (wasmMemory w2)")
    note run = transcode_decoded [where loadModule = loadModule
        and prepareTranscoding = prepareTranscoding and src = src and dst = dst
        and level = level and ktx2Reader = ktx2Reader and imageDesc = imageDesc,
        OF assms(1) [unfolded Inr] p [unfolded views v] d]
    have s: "variant w4 = variant w1" if "slice view (store_memory mem w2) = (r', w4)"
      for view r' w4
      using slice_variant [of view "store_memory mem w2"] that
      by (simp add: store_memory_variant v2)
    show ?thesis
      unfolding run using s
      by (auto simp: Let_def store_memory_variant v2 split: sum.splits option.splits prod.splits)
  qed
qed

lemma transcode_flag:
  assumes "\<And>w. u_transcodeInPlace (variant (snd (loadModule w))) = u_transcodeInPlace (variant w)"
    and "\<And>a b c d e w. variant (snd (prepareTranscoding a b c d e w)) = variant w"
  shows "u_transcodeInPlace (variant (snd (snd (transcode loadModule prepareTranscoding src dst level width
           height uncompressedByteLength ktx2Reader imageDesc encodedData w)))) =
         u_transcodeInPlace (variant w)"
proof -
  obtain result w1 where l: "loadModule w = (result, w1)" by (cases "loadModule w")
  have "u_transcodeInPlace (variant w1) = u_transcodeInPlace (variant w)"
    using assms(1) [of w] l by simp
  with transcode_variant [where loadModule = loadModule
      and prepareTranscoding = prepareTranscoding and src = src and dst = dst
      and level = level and width = width and height = height
      and uncompressedByteLength = uncompressedByteLength and ktx2Reader = ktx2Reader
      and imageDesc = imageDesc and encodedData = encodedData, OF l assms(2)]
  show ?thesis by simp
qed

lemma perform_flag:
  "u_transcodeInPlace (variant (perform super_initialize env operation w)) =
     (case operation of Op_initialize st \<Rightarrow> False | _ \<Rightarrow> u_transcodeInPlace (variant w))"
proof (cases operation)
  case (Op_transcode src dst level width height n ktx2Reader imageDesc encodedData)
  then show ?thesis
    by (simp add: variant_transcode_def transcode_flag u_loadModule_flag u_prepareTranscoding_variant)
qed (simp_all add: initialize_flag setModulePath_flag)

lemma run_keeps_flag_false:
  "u_transcodeInPlace (variant w) = False \<Longrightarrow>
   u_transcodeInPlace (variant (run super_initialize env operations w)) = False"
proof (induction operations arbitrary: w)
  case Nil
  then show ?case by simp
next
  case (Cons operation operations)
  have "u_transcodeInPlace (variant (perform super_initialize env operation w)) = False"
    using Cons.prems by (simp add: perform_flag split: operation.splits)
  from Cons.IH [OF this] show ?case by simp
qed

text \<open>
  C6. After \<open>initialize\<close> the flag \<open>_transcodeInPlace\<close> of the variant is false, and it
  is false after any run of operations on the initialised object: \<open>initialize\<close> again,
  \<open>getName\<close>, \<open>CanTranscode\<close>, \<open>setModulePath\<close> and \<open>transcode\<close>.
\<close>

text \<open>
  C6. After \<open>initialize\<close> the flag \<open>_transcodeInPlace\<close> of the variant is false, and it
  is false after any run of operations on the initialised object: \<open>initialize\<close> again,
  \<open>getName\<close>, \<open>CanTranscode\<close>, \<open>setModulePath\<close> and \<open>transcode\<close>.
\<close>

theorem transcodeInPlace_false_for_good:
  "u_transcodeInPlace (initialize super_initialize st this) = False \<and>
   u_transcodeInPlace
     (variant (run super_initialize env operations
        (w\<lparr> variant := initialize super_initialize st (variant w) \<rparr>))) = False"
  using run_keeps_flag_false [of "w\<lparr> variant := initialize super_initialize st (variant w) \<rparr>"]
  by (simp add: initialize_flag)

subsection \<open>The bytes returned\<close>

subsection \<open>The bytes returned\<close>

lemma u_prepareTranscoding_views:
  "fst (u_prepareTranscoding width height n encodedData k w) =
     Inr (\<lparr> buffer = WasmMemory (memoryBuffer (snd (u_prepareTranscoding width height n encodedData k w))),
            byteOffset = 0, byteLength = length encodedData \<rparr>,
          if u_transcodeInPlace (variant w) then None
          else Some \<lparr> buffer = WasmMemory (memoryBuffer (snd (u_prepareTranscoding width height n encodedData k w))),
                      byteOffset = length encodedData, byteLength = width * height * k \<rparr>)"
  by (simp add: u_prepareTranscoding_def Let_def)

lemma u_prepareTranscoding_input:
  "take (length encodedData)
     (wasmMemory (snd (u_prepareTranscoding width height n encodedData k w))) = encodedData"
  by (simp add: u_prepareTranscoding_def Let_def store_memory_def)

lemma u_prepareTranscoding_memory_length:
  "u_transcodeInPlace (variant w) = False \<Longrightarrow>
   length (wasmMemory (snd (u_prepareTranscoding width height n encodedData k w))) =
     max (length (wasmMemory w)) (length encodedData + width * height * k)"
  by (simp add: u_prepareTranscoding_def Let_def store_memory_def)

lemma u_prepareTranscoding_memory:
  "u_transcodeInPlace (variant w) = False \<Longrightarrow> length encodedData + width * height * k \<le> length (wasmMemory w) \<Longrightarrow>
   wasmMemory (snd (u_prepareTranscoding width height n encodedData k w)) =
     encodedData @ drop (length encodedData) (wasmMemory w)"
  by (simp add: u_prepareTranscoding_def Let_def store_memory_def)




lemma u_loadModule_loaded:
  "u_moduleBinding (variant w) = Loaded moduleWrapper \<Longrightarrow>
   u_loadModule env w = (Inr moduleWrapper, w)"
  by (simp add: u_loadModule_def ensureLoaded_def)

lemma loaded_transcode:
  assumes "u_moduleBinding (variant w) = Loaded moduleWrapper"
    and "u_transcodeInPlace (variant w) = False"
    and "decode_keeps_length (module moduleWrapper) width height"
    and "variant_transcode env src dst level width height n ktx2Reader imageDesc encodedData w =
           (outcome, calls, w')"
  shows "variant w' = variant w"
    and "wasmMemory w' =
           snd (decode (module moduleWrapper) width height
                (wasmMemory (snd (u_prepareTranscoding width height n encodedData 4 w))))"
    and "length (wasmMemory w') =
           max (length (wasmMemory w)) (length encodedData + width * height * 4)"
    and "outcome_bytes w' outcome =
           expected_bytes (length encodedData) (width * height * 4)
             (decode (module moduleWrapper) width height
                (wasmMemory (snd (u_prepareTranscoding width height n encodedData 4 w))))"
proof -
  let ?p = "u_prepareTranscoding width height n encodedData 4"
  let ?w2 = "snd (?p w)"
  let ?tv = "\<lparr> buffer = WasmMemory (memoryBuffer ?w2), byteOffset = 0,
               byteLength = length encodedData \<rparr>"
  let ?view = "\<lparr> buffer = WasmMemory (memoryBuffer ?w2),
                 byteOffset = length encodedData, byteLength = width * height * 4 \<rparr>"
  let ?d = "decode (module moduleWrapper) width height (wasmMemory ?w2)"
  let ?mem = "snd ?d"
  have l: "u_loadModule env w = (Inr moduleWrapper, w)"
    using assms(1) by (rule u_loadModule_loaded)
  have p: "?p w = (Inr (?tv, Some ?view), ?w2)"
    using u_prepareTranscoding_views [of width height n encodedData 4 w] assms(2)
    by (simp add: prod_eq_iff)
  have d: "?d = (fst ?d, ?mem)" by simp
  have len: "length ?mem = length (wasmMemory ?w2)"
    using assms(3) by (simp add: decode_keeps_length_def)
  have len2: "length (wasmMemory ?w2) =
      max (length (wasmMemory w)) (length encodedData + width * height * 4)"
    using u_prepareTranscoding_memory_length [OF assms(2)] .
  have same: "store_memory ?mem ?w2 = ?w2\<lparr> wasmMemory := ?mem \<rparr>"
    using len by (simp add: store_memory_def)
  have u: "usable (store_memory ?mem ?w2) ?view"
    unfolding same using len len2 by (simp add: usable_def contents_def)
  have b: "bytes_of (store_memory ?mem ?w2) ?view =
      take (width * height * 4) (drop (length encodedData) ?mem)"
    unfolding same by (simp add: bytes_of_def contents_def)
  have v2: "variant ?w2 = variant w"
    by (rule u_prepareTranscoding_variant)
  note run = transcode_decoded [where loadModule = "u_loadModule env"
        and prepareTranscoding = u_prepareTranscoding and src = src and dst = dst
        and level = level and ktx2Reader = ktx2Reader and imageDesc = imageDesc,
        OF l p d]
  note a = assms(4) [unfolded variant_transcode_def run]
  have cb: "bytes_of
       (store_memory ?mem ?w2\<lparr> allocated := allocated (store_memory ?mem ?w2) @
           [bytes_of (store_memory ?mem ?w2) ?view] \<rparr>)
       \<lparr> buffer = Allocated (length (allocated (store_memory ?mem ?w2))), byteOffset = 0,
          byteLength = byteLength ?view \<rparr> = bytes_of (store_memory ?mem ?w2) ?view"
    by (rule copy_bytes [OF usable_length [OF u]])
  have all: "variant w' = variant w \<and> wasmMemory w' = ?mem \<and>
      outcome_bytes w' outcome =
        expected_bytes (length encodedData) (width * height * 4) ?d"
  proof (cases "fst ?d")
    case (Inl e)
    with a show ?thesis
      by (auto simp: Let_def same v2 outcome_bytes_def expected_bytes_def)
  next
    case (Inr status)
    show ?thesis
    proof (cases "status = 0")
      case False
      with a Inr show ?thesis
        by (auto simp: Let_def same v2 outcome_bytes_def expected_bytes_def)
    next
      case True
      from a Inr True have
        o: "outcome = Inr (Some \<lparr> buffer = Allocated (length (allocated (store_memory ?mem ?w2))),
              byteOffset = 0, byteLength = byteLength ?view \<rparr>)"
        and w: "w' = store_memory ?mem ?w2\<lparr> allocated := allocated (store_memory ?mem ?w2) @
           [bytes_of (store_memory ?mem ?w2) ?view] \<rparr>"
        by (simp_all add: Let_def slice_usable [OF u])
      have "outcome_bytes w' outcome = Inr (Some (bytes_of (store_memory ?mem ?w2) ?view))"
        unfolding o w outcome_bytes_def using cb by simp
      moreover have "variant w' = variant w" "wasmMemory w' = ?mem"
        unfolding w by (simp_all add: same v2)
      ultimately show ?thesis
        using Inr True b by (simp add: expected_bytes_def)
    qed
  qed
  from all show "variant w' = variant w" by simp
  from all show "wasmMemory w' = ?mem" by simp
  from all len len2 show "length (wasmMemory w') =
      max (length (wasmMemory w)) (length encodedData + width * height * 4)" by simp
  from all show "outcome_bytes w' outcome =
      expected_bytes (length encodedData) (width * height * 4) ?d" by simp
qed

lemma expected_bytes_cong:
  assumes "decode_reads_input_only transcoder width height n m"
    and "length mem = length mem'" and "n + m \<le> length mem"
    and "take n mem = take n mem'"
  shows "expected_bytes n m (decode transcoder width height mem) =
         expected_bytes n m (decode transcoder width height mem')"
proof -
  from assms have h:
    "fst (decode transcoder width height mem) = fst (decode transcoder width height mem')"
    "fst (decode transcoder width height mem) = Inr 0 \<longrightarrow>
     take m (drop n (snd (decode transcoder width height mem))) =
       take m (drop n (snd (decode transcoder width height mem')))"
    unfolding decode_reads_input_only_def by blast+
  show ?thesis
  proof (cases "fst (decode transcoder width height mem')")
    case (Inl e)
    with h(1) show ?thesis by (simp add: expected_bytes_def)
  next
    case (Inr status)
    with h show ?thesis by (simp add: expected_bytes_def)
  qed
qed

text \<open>
  C9, amended. With the module loaded, and a decode entry point that never grows the
  memory and reads its input region only, two calls of \<open>transcode\<close> with the same
  request, one after the other, have the same outcome: the same rejection, \<open>null\<close> both
  times, or two typed arrays showing the same bytes. The claim as it stands is run on a
  module that keeps a count below.
\<close>

theorem transcode_twice_same_bytes:
  assumes "u_moduleBinding (variant w) = Loaded moduleWrapper"
    and "u_transcodeInPlace (variant w) = False"
    and "decode_keeps_length (module moduleWrapper) width height"
    and "decode_reads_input_only (module moduleWrapper) width height (length encodedData)
           (width * height * 4)"
    and "variant_transcode env src dst level width height uncompressedByteLength ktx2Reader
           imageDesc encodedData w = (outcome1, calls1, w1)"
    and "variant_transcode env src dst level width height uncompressedByteLength ktx2Reader
           imageDesc encodedData w1 = (outcome2, calls2, w2)"
  shows "outcome_bytes w1 outcome1 = outcome_bytes w2 outcome2"
proof -
  let ?n = "length encodedData"
  let ?m = "width * height * 4"
  let ?mem = "\<lambda>w. wasmMemory (snd (u_prepareTranscoding width height uncompressedByteLength
    encodedData 4 w))"
  note first = loaded_transcode [OF assms(1,2,3,5)]
  have loaded1: "u_moduleBinding (variant w1) = Loaded moduleWrapper"
    and flag1: "u_transcodeInPlace (variant w1) = False"
    using first(1) assms(1,2) by simp_all
  note second = loaded_transcode [OF loaded1 flag1 assms(3,6)]
  have l0: "length (?mem w) = max (length (wasmMemory w)) (?n + ?m)"
    using u_prepareTranscoding_memory_length [OF assms(2)] .
  have l1: "length (?mem w1) = max (length (wasmMemory w1)) (?n + ?m)"
    using u_prepareTranscoding_memory_length [OF flag1] .
  have eqlen: "length (?mem w) = length (?mem w1)"
    using l0 l1 first(3) by simp
  have big: "?n + ?m \<le> length (?mem w)"
    using l0 by simp
  have inp: "take ?n (?mem w) = take ?n (?mem w1)"
    by (simp only: u_prepareTranscoding_input)
  from expected_bytes_cong [OF assms(4) eqlen big inp] first(4) second(4)
  show ?thesis by simp
qed

subsection \<open>The theorems at the example world\<close>

text \<open>
  The example world evaluated, and each theorem above that has a hypothesis applied to it.
\<close>

lemma example_load:
  "u_loadModule example_environment example_world =
     (Inr example_module,
      example_world\<lparr> variant := example_transcoder\<lparr>
        u_moduleBinding := Loaded example_module,
        loads := [FromBinary [0, 97, 115, 109]] \<rparr> \<rparr>)"
  by (simp add: u_loadModule_def ensureLoaded_def start_load_def settle_def module_source_def
      perform_load_def Let_def example_environment_def example_statics_def
      example_transcoder_def example_world_def initialize_def setModulePath_def
      initial_statics_def)

lemma example_flag: "u_transcodeInPlace example_transcoder = False"
  by (simp add: example_transcoder_def initialize_flag)

lemma example_load_world:
  "u_loadModule example_environment example_world = (Inr example_module, example_loaded_world)"
  by (simp add: example_loaded_world_def example_load)

lemma example_loaded_world_eq:
  "example_loaded_world =
     \<lparr> variant = example_transcoder\<lparr>
         u_moduleBinding := Loaded example_module,
         loads := [FromBinary [0, 97, 115, 109]] \<rparr>,
       wasmMemory = [], memoryBuffer = 0, allocated = [] \<rparr>"
  by (simp add: example_loaded_world_def example_load) (simp add: example_world_def)

lemma example_loaded_world_flag: "u_transcodeInPlace (variant example_loaded_world) = False"
  by (simp add: example_loaded_world_eq example_flag)

lemma example_loaded: "u_moduleBinding (variant example_loaded_world) = Loaded example_module"
  by (simp add: example_loaded_world_eq)

lemma example_prepare:
  "encodedData \<noteq> [] \<Longrightarrow>
   u_prepareTranscoding width height n encodedData k example_loaded_world =
     (Inr (\<lparr> buffer = WasmMemory 1, byteOffset = 0, byteLength = length encodedData \<rparr>,
           Some \<lparr> buffer = WasmMemory 1, byteOffset = length encodedData,
                  byteLength = width * height * k \<rparr>),
      example_loaded_world\<lparr> wasmMemory := encodedData @ replicate (width * height * k) 0,
                             memoryBuffer := 1 \<rparr>)"
  using example_loaded_world_flag
  by (simp add: u_prepareTranscoding_def Let_def store_memory_def example_loaded_world_eq)

lemma example_block_length: "length example_block = 16"
  by (simp add: example_block_def)

lemma example_block_sum: "sum_list example_block = 136"
  by (simp add: example_block_def)

lemma sum_list_zeros: "sum_list (replicate n (0::byte)) = 0"
  by (induction n) simp_all

lemma example_decode_zero_block:
  "decode (module example_module) 4 4 ([0, 0, 0] @ replicate 64 0) =
     (Inr 1, [0, 0, 0] @ replicate 64 0)"
  by (simp add: example_module_def example_decode_def Let_def)

lemma example_decode_block:
  "decode (module example_module) width height (example_block @ replicate (width * height * 4) 0) =
     (Inr 0, example_block @ replicate (width * height * 4) (136 + of_nat width))"
  by (simp add: example_module_def example_decode_def Let_def example_block_length
      example_block_sum)

lemma example_decode_keeps_length: "decode_keeps_length (module example_module) width height"
  unfolding decode_keeps_length_def
proof
  fix mem :: "byte list"
  show "length (snd (decode (module example_module) width height mem)) = length mem"
  proof (cases "length mem < 16 + width * height * 4 \<or> sum_list (take 16 mem) = 0")
    case True
    then show ?thesis
      by (simp add: example_module_def example_decode_def Let_def)
  next
    case False
    then have "16 + width * height * 4 \<le> length mem" by simp
    with False show ?thesis
      by (simp add: example_module_def example_decode_def Let_def)
  qed
qed

lemma example_decode_reads_input_only:
  "decode_reads_input_only (module example_module) width height 16 (width * height * 4)"
  unfolding decode_reads_input_only_def
proof (intro allI impI)
  fix mem mem' :: "byte list"
  assume h: "length mem = length mem' \<and> 16 + width * height * 4 \<le> length mem \<and>
    take 16 mem = take 16 mem'"
  then have l: "length mem = length mem'" and big: "16 + width * height * 4 \<le> length mem"
    and eq: "take 16 mem = take 16 mem'"
    by blast+
  define block where "block = take 16 mem"
  have bl: "length block = 16" using big by (simp add: block_def)
  have d: "decode (module example_module) = example_decode"
    by (simp add: example_module_def)
  have e1: "example_decode width height mem =
      (if sum_list block = 0 then (Inr 1, mem)
       else (Inr 0, block @ replicate (width * height * 4) (sum_list block + of_nat width)
               @ drop (16 + width * height * 4) mem))"
    using big by (simp add: example_decode_def Let_def block_def)
  have e2: "example_decode width height mem' =
      (if sum_list block = 0 then (Inr 1, mem')
       else (Inr 0, block @ replicate (width * height * 4) (sum_list block + of_nat width)
               @ drop (16 + width * height * 4) mem'))"
    using big l by (simp add: example_decode_def Let_def block_def eq)
  show "fst (decode (module example_module) width height mem) =
          fst (decode (module example_module) width height mem') \<and>
        (fst (decode (module example_module) width height mem) = Inr 0 \<longrightarrow>
         take (width * height * 4) (drop 16 (snd (decode (module example_module) width height mem))) =
         take (width * height * 4) (drop 16 (snd (decode (module example_module) width height mem'))))"
    unfolding d e1 e2 using bl by simp
qed

lemma example_prepare_block:
  "u_prepareTranscoding 4 4 n example_block 4 example_loaded_world =
     (Inr (\<lparr> buffer = WasmMemory 1, byteOffset = 0, byteLength = 16 \<rparr>,
           Some \<lparr> buffer = WasmMemory 1, byteOffset = 16, byteLength = 64 \<rparr>),
      example_loaded_world\<lparr> wasmMemory := example_block @ replicate 64 0, memoryBuffer := 1 \<rparr>)"
proof -
  have "example_block \<noteq> []" by (simp add: example_block_def)
  from example_prepare [OF this, of 4 4 n 4] show ?thesis
    by (simp add: example_block_length)
qed

lemma example_decode_block_4:
  "decode (module example_module) 4 4 (example_block @ replicate 64 0) =
     (Inr 0, example_block @ replicate 64 140)"
  using example_decode_block [of 4 4] by simp

theorem transcode_nonzero_status_gives_null_witness:
  "transcode (u_loadModule example_environment) u_prepareTranscoding UASTC4x4 RGBA32 0 4 4 64
     () (None :: unit option) [0, 0, 0] example_world =
   (Inr None,
    [Call_loadModule, Call_prepareTranscoding 4 4 64 [0, 0, 0] 4, Call_decode 4 4],
    example_loaded_world\<lparr> wasmMemory := [0, 0, 0] @ replicate 64 0, memoryBuffer := 1 \<rparr>)"
proof -
  let ?w2 = "example_loaded_world\<lparr> wasmMemory := [0, 0, 0] @ replicate 64 0, memoryBuffer := 1 \<rparr>"
  have ne: "[0, 0, 0 :: byte] \<noteq> []" by simp
  have p: "u_prepareTranscoding 4 4 64 [0, 0, 0] 4 example_loaded_world =
      (Inr (\<lparr> buffer = WasmMemory 1, byteOffset = 0, byteLength = length [0, 0, 0 :: byte] \<rparr>,
            Some \<lparr> buffer = WasmMemory 1, byteOffset = length [0, 0, 0 :: byte],
                   byteLength = 4 * 4 * 4 \<rparr>), ?w2)"
    using example_prepare [OF ne, of 4 4 64 4] by simp
  have d: "decode (module example_module) 4 4 (wasmMemory ?w2) =
      (Inr 1, [0, 0, 0] @ replicate 64 0)"
    using example_decode_zero_block by simp
  have nz: "(1::int) \<noteq> 0" by simp
  have s: "store_memory ([0, 0, 0] @ replicate 64 0) ?w2 = ?w2"
    by (simp add: store_memory_def)
  show ?thesis
    using transcode_nonzero_status_gives_null
      [where loadModule = "u_loadModule example_environment"
        and prepareTranscoding = u_prepareTranscoding
        and src = UASTC4x4 and dst = RGBA32 and level = 0 and ktx2Reader = "()"
        and imageDesc = "None :: unit option", OF example_load_world p d nz]
    unfolding s .
qed

theorem transcode_success_returns_copy_witness:
  "(\<exists>copy w4.
     transcode (u_loadModule example_environment) u_prepareTranscoding UASTC4x4 RGBA32 0 4 4 64
       () (None :: unit option) example_block example_world =
     (Inr (Some copy),
      [Call_loadModule, Call_prepareTranscoding 4 4 64 example_block 4, Call_decode 4 4,
       Call_slice \<lparr> buffer = WasmMemory 1, byteOffset = 16, byteLength = 64 \<rparr>],
      w4) \<and>
     byteLength copy = 64 \<and>
     bytes_of w4 copy = replicate 64 140 \<and>
     wasmMemory w4 = example_block @ replicate 64 140 \<and>
     bytes_of (write_byte (WasmMemory 1) 20 7 w4) copy = replicate 64 140) \<and>
   transcode (\<lambda>w. (Inr growing_module, w)) u_prepareTranscoding UASTC4x4 RGBA32 0 4 4 64
     () (None :: unit option) example_block example_loaded_world =
   (Inl TypeError,
    [Call_loadModule, Call_prepareTranscoding 4 4 64 example_block 4, Call_decode 4 4,
     Call_slice \<lparr> buffer = WasmMemory 1, byteOffset = 16, byteLength = 64 \<rparr>],
    example_loaded_world\<lparr> wasmMemory := (example_block @ replicate 64 0) @ [0],
                           memoryBuffer := 2 \<rparr>)"
proof -
  let ?view = "\<lparr> buffer = WasmMemory 1, byteOffset = 16, byteLength = 64 \<rparr>"
  let ?w2 = "example_loaded_world\<lparr> wasmMemory := example_block @ replicate 64 0,
                                    memoryBuffer := 1 \<rparr>"
  let ?w3 = "?w2\<lparr> wasmMemory := example_block @ replicate 64 140 \<rparr>"
  have d: "decode (module example_module) 4 4 (wasmMemory ?w2) =
      (Inr 0, example_block @ replicate 64 140)"
    using example_decode_block_4 by simp
  have s: "store_memory (example_block @ replicate 64 140) ?w2 = ?w3"
    by (simp add: store_memory_def)
  have u: "usable ?w3 ?view"
    by (simp add: usable_def contents_def example_block_length)
  have b: "bytes_of ?w3 ?view = replicate 64 140"
    by (simp add: bytes_of_def contents_def example_block_length)
  from transcode_success_returns_copy
      [where loadModule = "u_loadModule example_environment"
        and prepareTranscoding = u_prepareTranscoding
        and src = UASTC4x4 and dst = RGBA32 and level = 0 and ktx2Reader = "()"
        and imageDesc = "None :: unit option",
        OF example_load_world example_prepare_block d, unfolded s] u
  obtain copy w4 where r:
    "transcode (u_loadModule example_environment) u_prepareTranscoding UASTC4x4 RGBA32 0 4 4 64
       () (None :: unit option) example_block example_world =
     (Inr (Some copy),
      [Call_loadModule, Call_prepareTranscoding 4 4 64 example_block 4, Call_decode 4 4,
       Call_slice ?view], w4)"
    "\<forall>g. buffer copy \<noteq> WasmMemory g"
    "byteLength copy = byteLength ?view"
    "bytes_of w4 copy = bytes_of ?w3 ?view"
    "wasmMemory w4 = example_block @ replicate 64 140"
    "\<forall>buf i x. buf \<noteq> buffer copy \<longrightarrow> bytes_of (write_byte buf i x w4) copy = bytes_of w4 copy"
    by blast
  have w: "bytes_of (write_byte (WasmMemory 1) 20 7 w4) copy = bytes_of w4 copy"
    using r(2,6) by metis
  have first: "\<exists>copy w4.
     transcode (u_loadModule example_environment) u_prepareTranscoding UASTC4x4 RGBA32 0 4 4 64
       () (None :: unit option) example_block example_world =
     (Inr (Some copy),
      [Call_loadModule, Call_prepareTranscoding 4 4 64 example_block 4, Call_decode 4 4,
       Call_slice ?view], w4) \<and>
     byteLength copy = 64 \<and>
     bytes_of w4 copy = replicate 64 140 \<and>
     wasmMemory w4 = example_block @ replicate 64 140 \<and>
     bytes_of (write_byte (WasmMemory 1) 20 7 w4) copy = replicate 64 140"
    using r w b by (intro exI [of _ copy] exI [of _ w4]) simp
  let ?load = "\<lambda>w :: LiteTranscoder world. (Inr growing_module :: error + moduleWrapper, w)"
  let ?g3 = "example_loaded_world\<lparr> wasmMemory := (example_block @ replicate 64 0) @ [0],
                           memoryBuffer := 2 \<rparr>"
  have gl: "?load example_loaded_world = (Inr growing_module, example_loaded_world)"
    by simp
  have gd: "decode (module growing_module) 4 4 (wasmMemory ?w2) =
      (Inr 0, (example_block @ replicate 64 0) @ [0])"
    by (simp add: growing_module_def)
  have gs: "store_memory ((example_block @ replicate 64 0) @ [0]) ?w2 = ?g3"
    by (simp add: store_memory_def)
  have gu: "\<not> usable ?g3 ?view"
    by (simp add: usable_def contents_def)
  have second: "transcode ?load u_prepareTranscoding UASTC4x4 RGBA32 0 4 4 64
     () (None :: unit option) example_block example_loaded_world =
   (Inl TypeError,
    [Call_loadModule, Call_prepareTranscoding 4 4 64 example_block 4, Call_decode 4 4,
     Call_slice ?view], ?g3)"
    using transcode_success_returns_copy
      [where loadModule = ?load and prepareTranscoding = u_prepareTranscoding
        and src = UASTC4x4 and dst = RGBA32 and level = 0 and ktx2Reader = "()"
        and imageDesc = "None :: unit option",
        OF gl example_prepare_block gd, unfolded gs] gu
    by blast
  from first second show ?thesis by blast
qed

lemma example_prepare_wide:
  "u_prepareTranscoding 8 4 n example_block 4 example_loaded_world =
     (Inr (\<lparr> buffer = WasmMemory 1, byteOffset = 0, byteLength = 16 \<rparr>,
           Some \<lparr> buffer = WasmMemory 1, byteOffset = 16, byteLength = 128 \<rparr>),
      example_loaded_world\<lparr> wasmMemory := example_block @ replicate 128 0, memoryBuffer := 1 \<rparr>)"
proof -
  have "example_block \<noteq> []" by (simp add: example_block_def)
  from example_prepare [OF this, of 8 4 n 4] show ?thesis
    by (simp add: example_block_length)
qed

lemma example_decode_block_wide:
  "decode (module example_module) 8 4 (example_block @ replicate 128 0) =
     (Inr 0, example_block @ replicate 128 144)"
  using example_decode_block [of 8 4] by simp

theorem transcode_order_witness:
  "transcode (\<lambda>w. (Inl (ModuleLoadFailed ''offline''), w)) u_prepareTranscoding UASTC4x4
     RGBA32 0 8 4 128 () (None :: unit option) example_block example_world =
   (Inl (ModuleLoadFailed ''offline''), [Call_loadModule], example_world) \<and>
   transcode (u_loadModule example_environment) (\<lambda>a b c d e w. (Inl (Thrown ''memory''), w))
     UASTC4x4 RGBA32 0 8 4 128 () (None :: unit option) example_block example_world =
   (Inl (Thrown ''memory''),
    [Call_loadModule, Call_prepareTranscoding 8 4 128 example_block 4], example_loaded_world) \<and>
   take 3 (fst (snd (transcode (u_loadModule example_environment) u_prepareTranscoding
     UASTC4x4 RGBA32 0 8 4 128 () (None :: unit option) example_block example_world))) =
   [Call_loadModule, Call_prepareTranscoding 8 4 128 example_block 4, Call_decode 8 4] \<and>
   wasmMemory (snd (snd (transcode (u_loadModule example_environment) u_prepareTranscoding
     UASTC4x4 RGBA32 0 8 4 128 () (None :: unit option) example_block example_world))) =
   example_block @ replicate 128 144 \<and>
   fst (transcode (u_loadModule example_environment) u_prepareTranscoding
     UASTC4x4 RGBA32 0 8 4 128 () (None :: unit option) example_block example_world) \<noteq> Inr None"
proof -
  let ?load = "\<lambda>w :: LiteTranscoder world. (Inl (ModuleLoadFailed ''offline'') :: error + moduleWrapper, w)"
  let ?prepare = "\<lambda>(a::nat) (b::nat) (c::nat) (d::byte list) (e::nat) (w :: LiteTranscoder world).
    (Inl (Thrown ''memory'') :: error + Uint8Array \<times> Uint8Array option, w)"
  have rejected: "?load example_world = (Inl (ModuleLoadFailed ''offline''), example_world)"
    by simp
  have a: "transcode ?load u_prepareTranscoding UASTC4x4
     RGBA32 0 8 4 128 () (None :: unit option) example_block example_world =
   (Inl (ModuleLoadFailed ''offline''), [Call_loadModule], example_world)"
    using transcode_order [where loadModule = ?load and prepareTranscoding = u_prepareTranscoding
        and w = example_world and src = UASTC4x4 and dst = RGBA32 and level = 0 and width = 8
        and height = 4 and uncompressedByteLength = 128 and ktx2Reader = "()"
        and imageDesc = "None :: unit option" and encodedData = example_block] rejected
    by blast
  have thrown: "?prepare 8 4 128 example_block 4 example_loaded_world =
      (Inl (Thrown ''memory''), example_loaded_world)"
    by simp
  have b: "transcode (u_loadModule example_environment) ?prepare
     UASTC4x4 RGBA32 0 8 4 128 () (None :: unit option) example_block example_world =
   (Inl (Thrown ''memory''),
    [Call_loadModule, Call_prepareTranscoding 8 4 128 example_block 4], example_loaded_world)"
    using transcode_order [where loadModule = "u_loadModule example_environment"
        and prepareTranscoding = ?prepare
        and w = example_world and src = UASTC4x4 and dst = RGBA32 and level = 0 and width = 8
        and height = 4 and uncompressedByteLength = 128 and ktx2Reader = "()"
        and imageDesc = "None :: unit option" and encodedData = example_block]
      example_load_world thrown
    by blast
  let ?w2 = "example_loaded_world\<lparr> wasmMemory := example_block @ replicate 128 0,
                                    memoryBuffer := 1 \<rparr>"
  have d: "decode (module example_module) 8 4 (wasmMemory ?w2) =
      (Inr 0, example_block @ replicate 128 144)"
    using example_decode_block_wide by simp
  have c: "take 3 (fst (snd (transcode (u_loadModule example_environment) u_prepareTranscoding
     UASTC4x4 RGBA32 0 8 4 128 () (None :: unit option) example_block example_world))) =
   [Call_loadModule, Call_prepareTranscoding 8 4 128 example_block 4, Call_decode 8 4] \<and>
   wasmMemory (snd (snd (transcode (u_loadModule example_environment) u_prepareTranscoding
     UASTC4x4 RGBA32 0 8 4 128 () (None :: unit option) example_block example_world))) =
   example_block @ replicate 128 144 \<and>
   (case (Inr 0 :: error + int) of
      Inl e \<Rightarrow> fst (transcode (u_loadModule example_environment) u_prepareTranscoding
        UASTC4x4 RGBA32 0 8 4 128 () (None :: unit option) example_block example_world) = Inl e
    | Inr status \<Rightarrow>
        (fst (transcode (u_loadModule example_environment) u_prepareTranscoding
           UASTC4x4 RGBA32 0 8 4 128 () (None :: unit option) example_block example_world) = Inr None)
        = (status \<noteq> 0))"
    using transcode_order [where loadModule = "u_loadModule example_environment"
        and prepareTranscoding = u_prepareTranscoding
        and w = example_world and src = UASTC4x4 and dst = RGBA32 and level = 0 and width = 8
        and height = 4 and uncompressedByteLength = 128 and ktx2Reader = "()"
        and imageDesc = "None :: unit option" and encodedData = example_block]
      example_load_world example_prepare_wide [of 128] d
    by blast
  from a b c show ?thesis by simp
qed

lemma example_unloaded: "u_moduleBinding example_transcoder = Unloaded"
  by (simp add: example_transcoder_def initialize_def setModulePath_def)

lemma example_source: "module_source example_transcoder = FromBinary [0, 97, 115, 109]"
  by (simp add: example_transcoder_def initialize_def setModulePath_def module_source_def
      example_statics_def)

lemma example_loads: "loads example_transcoder = []"
  by (simp add: example_transcoder_def initialize_def setModulePath_def)

theorem concurrent_callers_share_one_load_witness:
  "fst (ensureLoaded_all [1, 2, 3] example_transcoder) =
     [Pending (FromBinary [0, 97, 115, 109]), Pending (FromBinary [0, 97, 115, 109]),
      Pending (FromBinary [0, 97, 115, 109])] \<and>
   loads (snd (ensureLoaded_all [1, 2, 3] example_transcoder)) = [FromBinary [0, 97, 115, 109]] \<and>
   fst (settle (Inr example_module) (snd (ensureLoaded_all [1, 2, 3] example_transcoder))) =
     [(1, Inr example_module), (2, Inr example_module), (3, Inr example_module)] \<and>
   u_moduleBinding (snd (settle (Inr example_module)
     (snd (ensureLoaded_all [1, 2, 3] example_transcoder)))) = Loaded example_module"
proof -
  have ne: "[1, 2, 3 :: nat] \<noteq> []" by simp
  show ?thesis
    using concurrent_callers_share_one_load [OF example_unloaded ne, of "Inr example_module"]
    by (simp add: example_source example_loads numeral_3_eq_3)
qed

theorem inline_binary_takes_precedence_witness:
  "u_modulePath (variant example_world) =
     ''https://cdn.babylonjs.com/ktx2Transcoders/1/uastc_rgba8_unorm_v2.wasm'' \<and>
   u_wasmBinary (variant example_world) = Some [0, 97, 115, 109] \<and>
   fst (u_loadModule example_environment example_world) = Inr example_module \<and>
   loads (variant (snd (u_loadModule example_environment example_world))) =
     [FromBinary [0, 97, 115, 109]]"
proof -
  have v: "variant example_world =
      initialize (\<lambda>this. this\<lparr> u_transcodeInPlace := True \<rparr>) example_statics
       \<lparr> u_transcodeInPlace = True, u_modulePath = [], u_wasmBinary = None,
         u_moduleBinding = Unloaded, loads = [] \<rparr>"
    by (simp add: example_world_def example_transcoder_def)
  have u: "u_moduleBinding (variant example_world) = Unloaded"
    by (simp add: example_world_def example_unloaded)
  have s: "WasmBinary example_statics = Some [0, 97, 115, 109]"
    by (simp add: example_statics_def)
  have l: "loads (variant example_world) = []"
    by (simp add: example_world_def example_loads)
  have i: "instantiate example_environment [0, 97, 115, 109] = Inr example_module"
    by (simp add: example_environment_def)
  have url: "WasmModuleURL example_statics =
      ''https://cdn.babylonjs.com/ktx2Transcoders/1/uastc_rgba8_unorm_v2.wasm''"
    by (simp add: example_statics_def initial_statics_def)
  show ?thesis
    using inline_binary_takes_precedence [OF v u s, of example_environment] l i url
    by simp
qed





theorem transcode_twice_same_bytes_witness:
  "outcome_bytes (snd (snd (example_transcode example_environment 64 example_loaded_world)))
     (fst (example_transcode example_environment 64 example_loaded_world)) =
   outcome_bytes
     (snd (snd (example_transcode example_environment 64
        (snd (snd (example_transcode example_environment 64 example_loaded_world))))))
     (fst (example_transcode example_environment 64
        (snd (snd (example_transcode example_environment 64 example_loaded_world))))) \<and>
   outcome_bytes (snd (snd (example_transcode example_environment 64 example_loaded_world)))
     (fst (example_transcode example_environment 64 example_loaded_world)) =
   Inr (Some (replicate 64 140))"
proof -
  let ?T = "example_transcode example_environment 64"
  let ?w1 = "snd (snd (?T example_loaded_world))"
  have k: "decode_keeps_length (module example_module) 4 4"
    by (rule example_decode_keeps_length)
  have r: "decode_reads_input_only (module example_module) 4 4 (length example_block) (4 * 4 * 4)"
    using example_decode_reads_input_only [of 4 4] by (simp add: example_block_length)
  have c1: "variant_transcode example_environment UASTC4x4 RGBA32 0 4 4 64 ()
        (None :: unit option) example_block example_loaded_world =
      (fst (?T example_loaded_world), fst (snd (?T example_loaded_world)), ?w1)"
    by (simp add: example_transcode_def)
  have c2: "variant_transcode example_environment UASTC4x4 RGBA32 0 4 4 64 ()
        (None :: unit option) example_block ?w1 =
      (fst (?T ?w1), fst (snd (?T ?w1)), snd (snd (?T ?w1)))"
    by (simp add: example_transcode_def)
  have same: "outcome_bytes ?w1 (fst (?T example_loaded_world)) =
      outcome_bytes (snd (snd (?T ?w1))) (fst (?T ?w1))"
    by (rule transcode_twice_same_bytes
        [OF example_loaded example_loaded_world_flag k r c1 c2])
  have "outcome_bytes ?w1 (fst (?T example_loaded_world)) =
      expected_bytes 16 64 (decode (module example_module) 4 4
        (wasmMemory (snd (u_prepareTranscoding 4 4 64 example_block 4 example_loaded_world))))"
    using loaded_transcode(4) [OF example_loaded example_loaded_world_flag k c1]
    by (simp add: example_block_length)
  also have "\<dots> = Inr (Some (replicate 64 140))"
    using example_decode_block_4
    by (simp add: example_prepare_block expected_bytes_def example_block_length)
  finally show ?thesis
    using same by simp
qed

lemma counting_load:
  "u_loadModule counting_environment example_world =
     (Inr counting_module,
      example_world\<lparr> variant := example_transcoder\<lparr>
        u_moduleBinding := Loaded counting_module,
        loads := [FromBinary [0, 97, 115, 109]] \<rparr> \<rparr>)"
  by (simp add: u_loadModule_def ensureLoaded_def start_load_def settle_def module_source_def
      perform_load_def Let_def counting_environment_def example_statics_def
      example_transcoder_def example_world_def initialize_def setModulePath_def
      initial_statics_def)

lemma counting_loaded_world_eq:
  "counting_loaded_world =
     \<lparr> variant = example_transcoder\<lparr>
         u_moduleBinding := Loaded counting_module,
         loads := [FromBinary [0, 97, 115, 109]] \<rparr>,
       wasmMemory = [], memoryBuffer = 0, allocated = [] \<rparr>"
  by (simp add: counting_loaded_world_def counting_load) (simp add: example_world_def)

lemma counting_loaded: "u_moduleBinding (variant counting_loaded_world) = Loaded counting_module"
  by (simp add: counting_loaded_world_eq)

lemma counting_loaded_world_flag: "u_transcodeInPlace (variant counting_loaded_world) = False"
  by (simp add: counting_loaded_world_eq example_flag)

lemma counting_decode_keeps_length: "decode_keeps_length (module counting_module) width height"
  by (simp add: decode_keeps_length_def counting_module_def counting_decode_def)

lemma counting_decode_run:
  "decode (module counting_module) 4 4 (example_block @ replicate 64 x) =
     (Inr 0, example_block @ replicate 64 (x + 1))"
  by (simp add: counting_module_def counting_decode_def example_block_length nth_append)

lemma counting_first_memory:
  "wasmMemory (snd (u_prepareTranscoding 4 4 64 example_block 4 counting_loaded_world)) =
     example_block @ replicate 64 0"
  using counting_loaded_world_flag
  by (simp add: u_prepareTranscoding_def Let_def store_memory_def counting_loaded_world_eq
      example_block_length)

text \<open>
  C9, as the claim has it: any loaded module, the same request twice. The module that
  keeps a count in the memory behind the input region returns 64 bytes of 1 to the first
  call and 64 bytes of 2 to the second: \<open>transcode\<close> writes the encoded bytes afresh
  before each \<open>decode\<close> and clears nothing else.
\<close>

theorem transcode_twice_with_counting_module:
  "outcome_bytes (snd (snd (example_transcode counting_environment 64 counting_loaded_world)))
     (fst (example_transcode counting_environment 64 counting_loaded_world)) =
   Inr (Some (replicate 64 1)) \<and>
   outcome_bytes
     (snd (snd (example_transcode counting_environment 64
        (snd (snd (example_transcode counting_environment 64 counting_loaded_world))))))
     (fst (example_transcode counting_environment 64
        (snd (snd (example_transcode counting_environment 64 counting_loaded_world))))) =
   Inr (Some (replicate 64 2))"
proof -
  let ?T = "example_transcode counting_environment 64"
  let ?w1 = "snd (snd (?T counting_loaded_world))"
  note k = counting_decode_keeps_length [of 4 4]
  have c1: "variant_transcode counting_environment UASTC4x4 RGBA32 0 4 4 64 ()
        (None :: unit option) example_block counting_loaded_world =
      (fst (?T counting_loaded_world), fst (snd (?T counting_loaded_world)), ?w1)"
    by (simp add: example_transcode_def)
  have c2: "variant_transcode counting_environment UASTC4x4 RGBA32 0 4 4 64 ()
        (None :: unit option) example_block ?w1 =
      (fst (?T ?w1), fst (snd (?T ?w1)), snd (snd (?T ?w1)))"
    by (simp add: example_transcode_def)
  note first = loaded_transcode [OF counting_loaded counting_loaded_world_flag k c1]
  have m1: "wasmMemory ?w1 = example_block @ replicate 64 1"
    using first(2) counting_decode_run [of 0] by (simp add: counting_first_memory)
  have o1: "outcome_bytes ?w1 (fst (?T counting_loaded_world)) = Inr (Some (replicate 64 1))"
    using first(4) counting_decode_run [of 0]
    by (simp add: counting_first_memory expected_bytes_def example_block_length)
  have loaded1: "u_moduleBinding (variant ?w1) = Loaded counting_module"
    and flag1: "u_transcodeInPlace (variant ?w1) = False"
    using first(1) counting_loaded counting_loaded_world_flag by simp_all
  note second = loaded_transcode [OF loaded1 flag1 k c2]
  have m2: "wasmMemory (snd (u_prepareTranscoding 4 4 64 example_block 4 ?w1)) =
      example_block @ replicate 64 1"
    using u_prepareTranscoding_memory [OF flag1, of example_block 4 4 4 64] m1
    by (simp add: example_block_length)
  have o2: "outcome_bytes (snd (snd (?T ?w1))) (fst (?T ?w1)) = Inr (Some (replicate 64 2))"
    using second(4) counting_decode_run [of 1]
    by (simp add: m2 expected_bytes_def example_block_length)
  from o1 o2 show ?thesis by simp
qed

subsection \<open>The guarded setters of the image processing configuration\<close>

text \<open>
  What one setter does, in one equation: nothing at all when the incoming value is \<open>===\<close>
  to the one held; otherwise the backing field takes the value and \<open>notifyObservers\<close> runs
  once more, and no other field moves.
\<close>

lemma set_colorCurvesEnabled_effect:
  "set_colorCurvesEnabled v this =
     (if u_colorCurvesEnabled this = v then this
      else this\<lparr> u_colorCurvesEnabled := v,
                 onUpdateParameters_notified := Suc (onUpdateParameters_notified this) \<rparr>)"
  by (simp add: set_colorCurvesEnabled_def updateParameters_def)

lemma set_colorGradingTexture_effect:
  "set_colorGradingTexture v this =
     (if u_colorGradingTexture this = v then this
      else this\<lparr> u_colorGradingTexture := v,
                 onUpdateParameters_notified := Suc (onUpdateParameters_notified this) \<rparr>)"
  by (simp add: set_colorGradingTexture_def updateParameters_def)

lemma set_colorGradingEnabled_effect:
  "set_colorGradingEnabled v this =
     (if u_colorGradingEnabled this = v then this
      else this\<lparr> u_colorGradingEnabled := v,
                 onUpdateParameters_notified := Suc (onUpdateParameters_notified this) \<rparr>)"
  by (simp add: set_colorGradingEnabled_def updateParameters_def)

lemma set_colorGradingWithGreenDepth_effect:
  "set_colorGradingWithGreenDepth v this =
     (if u_colorGradingWithGreenDepth this = v then this
      else this\<lparr> u_colorGradingWithGreenDepth := v,
                 onUpdateParameters_notified := Suc (onUpdateParameters_notified this) \<rparr>)"
  by (simp add: set_colorGradingWithGreenDepth_def updateParameters_def)

lemma set_colorGradingBGR_effect:
  "set_colorGradingBGR v this =
     (if u_colorGradingBGR this = v then this
      else this\<lparr> u_colorGradingBGR := v,
                 onUpdateParameters_notified := Suc (onUpdateParameters_notified this) \<rparr>)"
  by (simp add: set_colorGradingBGR_def updateParameters_def)

lemma set_exposure_effect:
  "set_exposure v this =
     (if strict_eq (u_exposure this) v then this
      else this\<lparr> u_exposure := v,
                 onUpdateParameters_notified := Suc (onUpdateParameters_notified this) \<rparr>)"
  by (simp add: set_exposure_def updateParameters_def)

lemma set_toneMappingEnabled_effect:
  "set_toneMappingEnabled v this =
     (if u_toneMappingEnabled this = v then this
      else this\<lparr> u_toneMappingEnabled := v,
                 onUpdateParameters_notified := Suc (onUpdateParameters_notified this) \<rparr>)"
  by (simp add: set_toneMappingEnabled_def updateParameters_def)

lemma set_toneMappingType_effect:
  "set_toneMappingType v this =
     (if strict_eq (u_toneMappingType this) v then this
      else this\<lparr> u_toneMappingType := v,
                 onUpdateParameters_notified := Suc (onUpdateParameters_notified this) \<rparr>)"
  by (simp add: set_toneMappingType_def updateParameters_def)

lemma set_contrast_effect:
  "set_contrast v this =
     (if strict_eq (u_contrast this) v then this
      else this\<lparr> u_contrast := v,
                 onUpdateParameters_notified := Suc (onUpdateParameters_notified this) \<rparr>)"
  by (simp add: set_contrast_def updateParameters_def)

lemma set_vignetteBlendMode_effect:
  "set_vignetteBlendMode v this =
     (if strict_eq (u_vignetteBlendMode this) v then this
      else this\<lparr> u_vignetteBlendMode := v,
                 onUpdateParameters_notified := Suc (onUpdateParameters_notified this) \<rparr>)"
  by (simp add: set_vignetteBlendMode_def updateParameters_def)

lemma set_vignetteEnabled_effect:
  "set_vignetteEnabled v this =
     (if u_vignetteEnabled this = v then this
      else this\<lparr> u_vignetteEnabled := v,
                 onUpdateParameters_notified := Suc (onUpdateParameters_notified this) \<rparr>)"
  by (simp add: set_vignetteEnabled_def updateParameters_def)

lemma set_ditheringEnabled_effect:
  "set_ditheringEnabled v this =
     (if u_ditheringEnabled this = v then this
      else this\<lparr> u_ditheringEnabled := v,
                 onUpdateParameters_notified := Suc (onUpdateParameters_notified this) \<rparr>)"
  by (simp add: set_ditheringEnabled_def updateParameters_def)

lemma set_ditheringIntensity_effect:
  "set_ditheringIntensity v this =
     (if strict_eq (u_ditheringIntensity this) v then this
      else this\<lparr> u_ditheringIntensity := v,
                 onUpdateParameters_notified := Suc (onUpdateParameters_notified this) \<rparr>)"
  by (simp add: set_ditheringIntensity_def updateParameters_def)

lemma set_skipFinalColorClamp_effect:
  "set_skipFinalColorClamp v this =
     (if u_skipFinalColorClamp this = v then this
      else this\<lparr> u_skipFinalColorClamp := v,
                 onUpdateParameters_notified := Suc (onUpdateParameters_notified this) \<rparr>)"
  by (simp add: set_skipFinalColorClamp_def updateParameters_def)

lemma set_applyByPostProcess_effect:
  "set_applyByPostProcess v this =
     (if u_applyByPostProcess this = v then this
      else this\<lparr> u_applyByPostProcess := v,
                 onUpdateParameters_notified := Suc (onUpdateParameters_notified this) \<rparr>)"
  by (simp add: set_applyByPostProcess_def updateParameters_def)

lemma set_isEnabled_effect:
  "set_isEnabled v this =
     (if u_isEnabled this = v then this
      else this\<lparr> u_isEnabled := v,
                 onUpdateParameters_notified := Suc (onUpdateParameters_notified this) \<rparr>)"
  by (simp add: set_isEnabled_def updateParameters_def)

text \<open>
  C10, as the claim has it, read on the numeric properties: a configuration whose exposure
  holds \<open>NaN\<close> is assigned \<open>NaN\<close> again. The guard \<open>this._exposure === value\<close> is
  false, since \<open>NaN\<close> is strictly equal to nothing: the fields stay as they were, yet the
  observers are notified a second time. The configuration is the freshly constructed one
  after \<open>exposure = NaN\<close>.
\<close>

theorem set_exposure_NaN_notifies_again:
  "u_exposure (set_exposure NaN (new_ImageProcessingConfiguration 0)) = NaN \<and>
   onUpdateParameters_notified (set_exposure NaN (new_ImageProcessingConfiguration 0)) = 1 \<and>
   onUpdateParameters_notified
     (set_exposure NaN (set_exposure NaN (new_ImageProcessingConfiguration 0))) = 2 \<and>
   set_exposure NaN (set_exposure NaN (new_ImageProcessingConfiguration 0))
     \<noteq> set_exposure NaN (new_ImageProcessingConfiguration 0)"
  by (simp add: set_exposure_def updateParameters_def new_ImageProcessingConfiguration_def)

text \<open>
  C10, amended. For each of the sixteen guarded properties: assigning a value that is
  \<open>===\<close> to the one the property holds returns the configuration as it was, every field
  and the count of notifications included; assigning a value that is not \<open>===\<close> to it
  stores the value in that property's backing field, leaves every other field alone and
  notifies the observers exactly once. On the boolean properties and on the texture
  reference \<open>===\<close> is equality of the values; on the numeric properties it is
  \<open>strict_eq\<close>, which differs from equality at \<open>NaN\<close> and at the two zeros.
\<close>

theorem guarded_setters_effect:
  "set_colorCurvesEnabled v_colorCurvesEnabled this =
     (if u_colorCurvesEnabled this = v_colorCurvesEnabled then this
      else this\<lparr> u_colorCurvesEnabled := v_colorCurvesEnabled,
                 onUpdateParameters_notified := Suc (onUpdateParameters_notified this) \<rparr>) \<and>
   set_colorGradingTexture v_colorGradingTexture this =
     (if u_colorGradingTexture this = v_colorGradingTexture then this
      else this\<lparr> u_colorGradingTexture := v_colorGradingTexture,
                 onUpdateParameters_notified := Suc (onUpdateParameters_notified this) \<rparr>) \<and>
   set_colorGradingEnabled v_colorGradingEnabled this =
     (if u_colorGradingEnabled this = v_colorGradingEnabled then this
      else this\<lparr> u_colorGradingEnabled := v_colorGradingEnabled,
                 onUpdateParameters_notified := Suc (onUpdateParameters_notified this) \<rparr>) \<and>
   set_colorGradingWithGreenDepth v_colorGradingWithGreenDepth this =
     (if u_colorGradingWithGreenDepth this = v_colorGradingWithGreenDepth then this
      else this\<lparr> u_colorGradingWithGreenDepth := v_colorGradingWithGreenDepth,
                 onUpdateParameters_notified := Suc (onUpdateParameters_notified this) \<rparr>) \<and>
   set_colorGradingBGR v_colorGradingBGR this =
     (if u_colorGradingBGR this = v_colorGradingBGR then this
      else this\<lparr> u_colorGradingBGR := v_colorGradingBGR,
                 onUpdateParameters_notified := Suc (onUpdateParameters_notified this) \<rparr>) \<and>
   set_exposure v_exposure this =
     (if strict_eq (u_exposure this) v_exposure then this
      else this\<lparr> u_exposure := v_exposure,
                 onUpdateParameters_notified := Suc (onUpdateParameters_notified this) \<rparr>) \<and>
   set_toneMappingEnabled v_toneMappingEnabled this =
     (if u_toneMappingEnabled this = v_toneMappingEnabled then this
      else this\<lparr> u_toneMappingEnabled := v_toneMappingEnabled,
                 onUpdateParameters_notified := Suc (onUpdateParameters_notified this) \<rparr>) \<and>
   set_toneMappingType v_toneMappingType this =
     (if strict_eq (u_toneMappingType this) v_toneMappingType then this
      else this\<lparr> u_toneMappingType := v_toneMappingType,
                 onUpdateParameters_notified := Suc (onUpdateParameters_notified this) \<rparr>) \<and>
   set_contrast v_contrast this =
     (if strict_eq (u_contrast this) v_contrast then this
      else this\<lparr> u_contrast := v_contrast,
                 onUpdateParameters_notified := Suc (onUpdateParameters_notified this) \<rparr>) \<and>
   set_vignetteBlendMode v_vignetteBlendMode this =
     (if strict_eq (u_vignetteBlendMode this) v_vignetteBlendMode then this
      else this\<lparr> u_vignetteBlendMode := v_vignetteBlendMode,
                 onUpdateParameters_notified := Suc (onUpdateParameters_notified this) \<rparr>) \<and>
   set_vignetteEnabled v_vignetteEnabled this =
     (if u_vignetteEnabled this = v_vignetteEnabled then this
      else this\<lparr> u_vignetteEnabled := v_vignetteEnabled,
                 onUpdateParameters_notified := Suc (onUpdateParameters_notified this) \<rparr>) \<and>
   set_ditheringEnabled v_ditheringEnabled this =
     (if u_ditheringEnabled this = v_ditheringEnabled then this
      else this\<lparr> u_ditheringEnabled := v_ditheringEnabled,
                 onUpdateParameters_notified := Suc (onUpdateParameters_notified this) \<rparr>) \<and>
   set_ditheringIntensity v_ditheringIntensity this =
     (if strict_eq (u_ditheringIntensity this) v_ditheringIntensity then this
      else this\<lparr> u_ditheringIntensity := v_ditheringIntensity,
                 onUpdateParameters_notified := Suc (onUpdateParameters_notified this) \<rparr>) \<and>
   set_skipFinalColorClamp v_skipFinalColorClamp this =
     (if u_skipFinalColorClamp this = v_skipFinalColorClamp then this
      else this\<lparr> u_skipFinalColorClamp := v_skipFinalColorClamp,
                 onUpdateParameters_notified := Suc (onUpdateParameters_notified this) \<rparr>) \<and>
   set_applyByPostProcess v_applyByPostProcess this =
     (if u_applyByPostProcess this = v_applyByPostProcess then this
      else this\<lparr> u_applyByPostProcess := v_applyByPostProcess,
                 onUpdateParameters_notified := Suc (onUpdateParameters_notified this) \<rparr>) \<and>
   set_isEnabled v_isEnabled this =
     (if u_isEnabled this = v_isEnabled then this
      else this\<lparr> u_isEnabled := v_isEnabled,
                 onUpdateParameters_notified := Suc (onUpdateParameters_notified this) \<rparr>)"
  by (simp only: set_colorCurvesEnabled_effect set_colorGradingTexture_effect set_colorGradingEnabled_effect set_colorGradingWithGreenDepth_effect set_colorGradingBGR_effect set_exposure_effect set_toneMappingEnabled_effect set_toneMappingType_effect set_contrast_effect set_vignetteBlendMode_effect set_vignetteEnabled_effect set_ditheringEnabled_effect set_ditheringIntensity_effect set_skipFinalColorClamp_effect set_applyByPostProcess_effect set_isEnabled_effect simp_thms)

end
